theory Spec2Isabelle
  imports Main
begin

section \<open>Go values and library functions the provider relies on\<close>

text \<open>
  Strings are byte lists. A Go \<open>int\<close> or \<open>int64\<close> that only carries an HTTP status or a
  job number is an \<open>int\<close>; the single place where the 64-bit range matters
  (\<open>strconv.ParseInt\<close>) checks it explicitly.
\<close>

fun digits :: "nat \<Rightarrow> string" where
  "digits n = (if n < 10 then [''0123456789'' ! n]
               else digits (n div 10) @ [''0123456789'' ! (n mod 10)])"

declare digits.simps [simp del]

text \<open>\<open>fmt.Sprintf("%d", i)\<close>: decimal digits, a minus sign for negative numbers.\<close>

definition itoa :: "int \<Rightarrow> string" where
  "itoa i = (if i < 0 then CHR ''-'' # digits (nat (- i)) else digits (nat i))"

record APIError =
  Message :: string
  Code :: int

record url =
  url_rest :: string
  url_query :: "string \<rightharpoonup> string list"

record PaginatedResponse =
  Items :: "string list"
  NextPageToken :: string

text \<open>An \<open>interface{}\<close> element of \<open>Items\<close> is represented by its JSON text.\<close>

subsection \<open>The API's JSON shapes\<close>

record Owner =
  Owner_ID :: string
  Owner_Slug :: string
  Owner_Type :: string

record Context =
  Context_ID :: string
  Context_Name :: string
  Context_CreatedAt :: string
  Context_Owner :: Owner

record EnvironmentVariable =
  EnvironmentVariable_Variable :: string
  EnvironmentVariable_Value :: string
  EnvironmentVariable_CreatedAt :: string
  EnvironmentVariable_UpdatedAt :: string

record CreateEnvironmentVariableRequest =
  CreateEnvironmentVariableRequest_Name :: string
  CreateEnvironmentVariableRequest_Value :: string

record CommitInfo =
  CommitInfo_Subject :: string
  CommitInfo_Body :: string

record VCSInfo =
  VCSInfo_ProviderName :: string
  VCSInfo_TargetRepositoryURL :: string
  VCSInfo_Branch :: string
  VCSInfo_ReviewID :: string
  VCSInfo_ReviewURL :: string
  VCSInfo_Revision :: string
  VCSInfo_Tag :: string
  VCSInfo_Commit :: CommitInfo

record Pipeline =
  Pipeline_ID :: string
  Pipeline_Number :: int
  Pipeline_ProjectSlug :: string
  Pipeline_State :: string
  Pipeline_CreatedAt :: string
  Pipeline_UpdatedAt :: string
  Pipeline_VCS :: VCSInfo
  Pipeline_Parameters :: "(string \<rightharpoonup> string) option"

record TriggerPipelineRequest =
  TriggerPipelineRequest_Branch :: string
  TriggerPipelineRequest_Tag :: string
  TriggerPipelineRequest_Parameters :: "(string \<rightharpoonup> string) option"

record JobAPI =
  JobAPI_ID :: string
  JobAPI_JobNumber :: int
  JobAPI_Name :: string
  JobAPI_ProjectSlug :: string
  JobAPI_Status :: string
  JobAPI_StartedAt :: string
  JobAPI_StoppedAt :: string
  JobAPI_ApprovalID :: string
  JobAPI_ApprovalType :: string

text \<open>The anonymous struct that \<open>RunnerTokenResource.Read\<close> decodes into.\<close>

record RunnerTokenRead =
  RunnerTokenRead_ID :: string
  RunnerTokenRead_ResourceClass :: string
  RunnerTokenRead_Nickname :: string
  RunnerTokenRead_CreatedAt :: string

text \<open>
  The zero values of the structs that the provider declares with \<open>var\<close> and passes by
  pointer to a decoder.
\<close>

definition zero_PaginatedResponse :: PaginatedResponse where
  "zero_PaginatedResponse = \<lparr>Items = [], NextPageToken = []\<rparr>"

definition zero_Context :: Context where
  "zero_Context = \<lparr>Context_ID = [], Context_Name = [], Context_CreatedAt = [],
     Context_Owner = \<lparr>Owner_ID = [], Owner_Slug = [], Owner_Type = []\<rparr>\<rparr>"

definition zero_EnvironmentVariable :: EnvironmentVariable where
  "zero_EnvironmentVariable = \<lparr>EnvironmentVariable_Variable = [],
     EnvironmentVariable_Value = [], EnvironmentVariable_CreatedAt = [],
     EnvironmentVariable_UpdatedAt = []\<rparr>"

definition zero_Pipeline :: Pipeline where
  "zero_Pipeline = \<lparr>Pipeline_ID = [], Pipeline_Number = 0, Pipeline_ProjectSlug = [],
     Pipeline_State = [], Pipeline_CreatedAt = [], Pipeline_UpdatedAt = [],
     Pipeline_VCS = \<lparr>VCSInfo_ProviderName = [], VCSInfo_TargetRepositoryURL = [],
       VCSInfo_Branch = [], VCSInfo_ReviewID = [], VCSInfo_ReviewURL = [],
       VCSInfo_Revision = [], VCSInfo_Tag = [],
       VCSInfo_Commit = \<lparr>CommitInfo_Subject = [], CommitInfo_Body = []\<rparr>\<rparr>,
     Pipeline_Parameters = None\<rparr>"

text \<open>
  The packages \<open>net/http\<close>, \<open>net/url\<close>, \<open>encoding/json\<close> and \<open>strconv.Quote\<close> are not part
  of the repository. What the provider calls from them is a parameter of the model: a
  function that returns \<open>Inl\<close> the error text or \<open>Inr\<close> the result. A \<open>Decode_\<close> function
  is \<open>json\<close>'s decoding of a body into a zero value; a \<open>Marshal_\<close> function is
  \<open>json.Marshal\<close> on a struct of strings, which cannot fail. \<open>NewRequest_error method url\<close>
  is the error of \<open>http.NewRequestWithContext\<close>, if any.
\<close>

record golib =
  NewRequest_error :: "string \<Rightarrow> string \<Rightarrow> string option"
  Unmarshal_APIError :: "string \<Rightarrow> string + APIError"
  Decode_PaginatedResponse :: "string \<Rightarrow> string + PaginatedResponse"
  Decode_Context :: "string \<Rightarrow> string + Context"
  Decode_EnvironmentVariable :: "string \<Rightarrow> string + EnvironmentVariable"
  Decode_Pipeline :: "string \<Rightarrow> string + Pipeline"
  Decode_JobAPI :: "string \<Rightarrow> string + JobAPI"
  Decode_RunnerTokenRead :: "string \<Rightarrow> string + RunnerTokenRead"
  Marshal_CreateEnvironmentVariableRequest :: "CreateEnvironmentVariableRequest \<Rightarrow> string"
  Marshal_TriggerPipelineRequest :: "TriggerPipelineRequest \<Rightarrow> string"
  url_Parse :: "string \<Rightarrow> string + url"
  url_String :: "url \<Rightarrow> string"
  url_PathEscape :: "string \<Rightarrow> string"
  strconv_Quote :: "string \<Rightarrow> string"

section \<open>Errors\<close>

datatype error =
    MarshalError string
  | CreateRequestError string
  | DoError string
  | APIErr APIError
  | DecodeError string
  | Errorf string

text \<open>\<open>APIError.Error()\<close>\<close>

definition APIError_Error :: "APIError \<Rightarrow> string" where
  "APIError_Error e =
     (if Code e \<noteq> 0 then ''CircleCI API error (code '' @ itoa (Code e) @ ''): '' @ Message e
      else ''CircleCI API error: '' @ Message e)"

fun Error :: "error \<Rightarrow> string" where
  "Error (MarshalError e) = ''failed to marshal request body: '' @ e"
| "Error (CreateRequestError e) = ''failed to create request: '' @ e"
| "Error (DoError e) = ''failed to make request: '' @ e"
| "Error (APIErr e) = APIError_Error e"
| "Error (DecodeError e) = e"
| "Error (Errorf e) = e"

section \<open>The HTTP transport\<close>

record http_request =
  Method :: string
  URL :: string
  Header :: "(string \<times> string) list"
  ReqBody :: "string option"

record http_response =
  StatusCode :: int
  Body :: string

text \<open>
  The remote side is the sequence of outcomes of the successive calls of
  \<open>HTTPClient.Do\<close>: the \<open>i\<close>-th call yields \<open>replies i\<close>, a transport error (\<open>Inl\<close>) or
  a response. \<open>sent\<close> records the requests issued so far, oldest first.
\<close>

record world =
  replies :: "nat \<Rightarrow> string + http_response"
  sent :: "http_request list"

definition HTTPClient_Do :: "http_request \<Rightarrow> world \<Rightarrow> (string + http_response) \<times> world" where
  "HTTPClient_Do req w = (replies w (length (sent w)), w\<lparr>sent := sent w @ [req]\<rparr>)"

record CircleCIClient =
  ApiToken :: string
  BaseURL :: string

text \<open>
  A request body (\<open>body interface{}\<close>) is represented by what \<open>json.Marshal\<close> yields for
  it: \<open>None\<close> is \<open>nil\<close>, \<open>Some (Inl e)\<close> a value that does not marshal, \<open>Some (Inr j)\<close> one
  that marshals to the text \<open>j\<close>.
\<close>

type_synonym body = "(string + string) option"

section \<open>The API client\<close>

definition MakeRequest ::
  "golib \<Rightarrow> CircleCIClient \<Rightarrow> string \<Rightarrow> string \<Rightarrow> body \<Rightarrow> world
     \<Rightarrow> (error + http_response) \<times> world" where
  "MakeRequest lib c method endpoint body w =
     (case body of
        Some (Inl e) \<Rightarrow> (Inl (MarshalError e), w)
      | _ \<Rightarrow>
        (let requestBody = (case body of Some (Inr jsonData) \<Rightarrow> Some jsonData | _ \<Rightarrow> None);
             url = BaseURL c @ endpoint
         in case NewRequest_error lib method url of
              Some e \<Rightarrow> (Inl (CreateRequestError e), w)
            | None \<Rightarrow>
              (let req = \<lparr>Method = method, URL = url,
                          Header = [(''Circle-Token'', ApiToken c),
                                    (''Content-Type'', ''application/json''),
                                    (''Accept'', ''application/json''),
                                    (''User-Agent'', ''terraform-provider-circleci'')],
                          ReqBody = requestBody\<rparr>;
                   (r, w') = HTTPClient_Do req w
               in case r of
                    Inl e \<Rightarrow> (Inl (DoError e), w')
                  | Inr resp \<Rightarrow>
                    if StatusCode resp \<ge> 400 then
                      (case Unmarshal_APIError lib (Body resp) of
                         Inl e \<Rightarrow>
                           (Inl (APIErr \<lparr>Message = ''HTTP '' @ itoa (StatusCode resp) @ '': ''
                                                     @ Body resp,
                                         Code = StatusCode resp\<rparr>), w')
                       | Inr apiErr \<Rightarrow> (Inl (APIErr apiErr), w'))
                    else (Inr resp, w'))))"

text \<open>
  \<open>Get\<close>, \<open>Post\<close>, \<open>Put\<close>: \<open>result\<close> is the value of the variable that the Go caller passes
  by pointer and \<open>dec\<close> its decoder; \<open>dec = None\<close> is the call with a \<open>nil\<close> result. The
  functions return the error, if any, and the variable's value afterwards.
\<close>

definition Get ::
  "golib \<Rightarrow> CircleCIClient \<Rightarrow> string \<Rightarrow> (string \<Rightarrow> string + 'a) option \<Rightarrow> 'a \<Rightarrow> world
     \<Rightarrow> (error option \<times> 'a) \<times> world" where
  "Get lib c endpoint dec result w =
     (case MakeRequest lib c ''GET'' endpoint None w of
        (Inl err, w') \<Rightarrow> ((Some err, result), w')
      | (Inr resp, w') \<Rightarrow>
          (case dec of
             Some d \<Rightarrow>
               (case d (Body resp) of
                  Inl e \<Rightarrow> ((Some (DecodeError e), result), w')
                | Inr v \<Rightarrow> ((None, v), w'))
           | None \<Rightarrow> ((None, result), w')))"

definition Post ::
  "golib \<Rightarrow> CircleCIClient \<Rightarrow> string \<Rightarrow> body \<Rightarrow> (string \<Rightarrow> string + 'a) option \<Rightarrow> 'a \<Rightarrow> world
     \<Rightarrow> (error option \<times> 'a) \<times> world" where
  "Post lib c endpoint body dec result w =
     (case MakeRequest lib c ''POST'' endpoint body w of
        (Inl err, w') \<Rightarrow> ((Some err, result), w')
      | (Inr resp, w') \<Rightarrow>
          (case dec of
             Some d \<Rightarrow>
               (case d (Body resp) of
                  Inl e \<Rightarrow> ((Some (DecodeError e), result), w')
                | Inr v \<Rightarrow> ((None, v), w'))
           | None \<Rightarrow> ((None, result), w')))"

definition Put ::
  "golib \<Rightarrow> CircleCIClient \<Rightarrow> string \<Rightarrow> body \<Rightarrow> (string \<Rightarrow> string + 'a) option \<Rightarrow> 'a \<Rightarrow> world
     \<Rightarrow> (error option \<times> 'a) \<times> world" where
  "Put lib c endpoint body dec result w =
     (case MakeRequest lib c ''PUT'' endpoint body w of
        (Inl err, w') \<Rightarrow> ((Some err, result), w')
      | (Inr resp, w') \<Rightarrow>
          (case dec of
             Some d \<Rightarrow>
               (case d (Body resp) of
                  Inl e \<Rightarrow> ((Some (DecodeError e), result), w')
                | Inr v \<Rightarrow> ((None, v), w'))
           | None \<Rightarrow> ((None, result), w')))"

definition Delete :: "golib \<Rightarrow> CircleCIClient \<Rightarrow> string \<Rightarrow> world \<Rightarrow> error option \<times> world" where
  "Delete lib c endpoint w =
     (case MakeRequest lib c ''DELETE'' endpoint None w of
        (Inl err, w') \<Rightarrow> (Some err, w')
      | (Inr resp, w') \<Rightarrow> (None, w'))"

text \<open>
  \<open>BuildURL\<close>: \<open>url_Parse\<close> stands for \<open>url.Parse\<close> followed by \<open>u.Query()\<close>, and
  \<open>url_String\<close> for \<open>q.Encode()\<close> followed by \<open>u.String()\<close>. \<open>q.Set\<close> replaces the values
  of a key by the single new value.
\<close>

definition BuildURL :: "golib \<Rightarrow> string \<Rightarrow> (string \<rightharpoonup> string) \<Rightarrow> string" where
  "BuildURL lib endpoint params =
     (if params = Map.empty then endpoint
      else case url_Parse lib endpoint of
             Inl err \<Rightarrow> endpoint
           | Inr u \<Rightarrow>
               url_String lib
                 (u\<lparr>url_query := (\<lambda>key. case params key of
                                           Some v \<Rightarrow> Some [v]
                                         | None \<Rightarrow> url_query u key)\<rparr>))"

text \<open>
  \<open>GetAllPages\<close>. The loop has no bound of its own: it runs until a page arrives whose
  token is empty, or a request fails. The result is \<open>None\<close> when it never returns.
\<close>

partial_function (option) GetAllPages_loop ::
  "golib \<Rightarrow> CircleCIClient \<Rightarrow> string \<Rightarrow> (string \<rightharpoonup> string) \<Rightarrow> string list \<Rightarrow> string \<Rightarrow> world
     \<Rightarrow> ((error + string list) \<times> world) option" where
  "GetAllPages_loop lib c endpoint params allItems nextPageToken w =
     (let queryParams = (if nextPageToken \<noteq> [] then params(''page-token'' \<mapsto> nextPageToken)
                         else params);
          url = BuildURL lib endpoint queryParams;
          ((err, response), w') =
             Get lib c url (Some (Decode_PaginatedResponse lib)) zero_PaginatedResponse w
      in case err of
           Some e \<Rightarrow> Some (Inl e, w')
         | None \<Rightarrow>
             (let allItems' = allItems @ Items response
              in if NextPageToken response = [] then Some (Inr allItems', w')
                 else GetAllPages_loop lib c endpoint params allItems' (NextPageToken response) w'))"

definition GetAllPages ::
  "golib \<Rightarrow> CircleCIClient \<Rightarrow> string \<Rightarrow> (string \<rightharpoonup> string) \<Rightarrow> world
     \<Rightarrow> ((error + string list) \<times> world) option" where
  "GetAllPages lib c endpoint params w = GetAllPages_loop lib c endpoint params [] [] w"

section \<open>The plugin framework, as far as the provider uses it\<close>

text \<open>A \<open>types.String\<close> or \<open>types.Int64\<close>: null, unknown, or a known value.\<close>

datatype 'a tfvalue = Null | Unknown | Known 'a

fun IsNull :: "'a tfvalue \<Rightarrow> bool" where
  "IsNull Null = True"
| "IsNull _ = False"

fun ValueString :: "string tfvalue \<Rightarrow> string" where
  "ValueString (Known s) = s"
| "ValueString _ = []"

fun ValueInt64 :: "int tfvalue \<Rightarrow> int" where
  "ValueInt64 (Known i) = i"
| "ValueInt64 _ = 0"

text \<open>
  Diagnostics: \<open>AddError\<close>, \<open>AddAttributeError\<close> (with the attribute's path) and
  \<open>AddWarning\<close> build one diagnostic each and hand it to \<open>Append\<close>, which skips a
  diagnostic that the list already contains.
\<close>

datatype diagnostic =
    ErrorDiagnostic string string
  | AttributeErrorDiagnostic string string string
  | WarningDiagnostic string string

fun is_error :: "diagnostic \<Rightarrow> bool" where
  "is_error (WarningDiagnostic summary detail) = False"
| "is_error _ = True"

fun HasError :: "diagnostic list \<Rightarrow> bool" where
  "HasError [] = False"
| "HasError (d # ds) = (is_error d \<or> HasError ds)"

fun Append :: "diagnostic list \<Rightarrow> diagnostic list \<Rightarrow> diagnostic list" where
  "Append diags [] = diags"
| "Append diags (d # ds) = Append (if d \<in> set diags then diags else diags @ [d]) ds"

text \<open>
  A request's \<open>Plan\<close> or \<open>State\<close> is represented by what its \<open>Get\<close> method yields: the
  diagnostics and the model struct it fills. A response holds the tracked state
  (\<open>None\<close> once the resource is removed) and the diagnostics reported so far; the framework
  hands \<open>Read\<close>, \<open>Update\<close> and \<open>Delete\<close> a response whose state is the prior state.
  \<open>State.Set\<close> of a model struct that matches the schema stores it and reports nothing.
\<close>

type_synonym 'm getter = "diagnostic list \<times> 'm"

record 'm response =
  State :: "'m option"
  Diagnostics :: "diagnostic list"

definition AppendDiags :: "'m response \<Rightarrow> diagnostic list \<Rightarrow> 'm response" where
  "AppendDiags resp ds = resp\<lparr>Diagnostics := Append (Diagnostics resp) ds\<rparr>"

definition AddError :: "'m response \<Rightarrow> string \<Rightarrow> string \<Rightarrow> 'm response" where
  "AddError resp summary detail = AppendDiags resp [ErrorDiagnostic summary detail]"

definition AddAttributeError :: "'m response \<Rightarrow> string \<Rightarrow> string \<Rightarrow> string \<Rightarrow> 'm response" where
  "AddAttributeError resp path summary detail =
     AppendDiags resp [AttributeErrorDiagnostic path summary detail]"

definition AddWarning :: "'m response \<Rightarrow> string \<Rightarrow> string \<Rightarrow> 'm response" where
  "AddWarning resp summary detail = AppendDiags resp [WarningDiagnostic summary detail]"

definition State_Set :: "'m response \<Rightarrow> 'm \<Rightarrow> 'm response" where
  "State_Set resp data = AppendDiags (resp\<lparr>State := Some data\<rparr>) []"

definition RemoveResource :: "'m response \<Rightarrow> 'm response" where
  "RemoveResource resp = resp\<lparr>State := None\<rparr>"

text \<open>
  The framework calls \<open>Create\<close> with a response that tracks nothing yet, and \<open>Read\<close>,
  \<open>Update\<close> and \<open>Delete\<close> with one that tracks the prior state; neither holds a
  diagnostic.
\<close>

definition untracked :: "'m response" where
  "untracked = \<lparr>State = None, Diagnostics = []\<rparr>"

definition tracking :: "'m \<Rightarrow> 'm response" where
  "tracking data = \<lparr>State = Some data, Diagnostics = []\<rparr>"

text \<open>
  A \<open>types.Map\<close> of strings is represented by what the provider observes of it: whether
  it is null, and what \<open>ElementsAs\<close> into a \<open>map[string]string\<close> yields.
\<close>

record tfmap =
  Map_IsNull :: bool
  Map_ElementsAs :: "diagnostic list \<times> (string \<rightharpoonup> string)"

text \<open>
  The state of an import is written attribute by attribute with \<open>SetAttribute\<close>; it
  starts with no attribute set.
\<close>

datatype attr_value = StringAttr string | Int64Attr int

record import_response =
  Import_State :: "string \<rightharpoonup> attr_value"
  Import_Diagnostics :: "diagnostic list"

definition Import_AddError :: "import_response \<Rightarrow> string \<Rightarrow> string \<Rightarrow> import_response" where
  "Import_AddError resp summary detail =
     resp\<lparr>Import_Diagnostics := Append (Import_Diagnostics resp) [ErrorDiagnostic summary detail]\<rparr>"

definition SetAttribute :: "import_response \<Rightarrow> string \<Rightarrow> attr_value \<Rightarrow> import_response" where
  "SetAttribute resp path v =
     resp\<lparr>Import_State := (Import_State resp)(path \<mapsto> v),
          Import_Diagnostics := Append (Import_Diagnostics resp) []\<rparr>"

subsection \<open>\<open>strings.SplitN\<close> and \<open>strconv.ParseInt\<close>\<close>

text \<open>\<open>strings.Index\<close>: where \<open>sep\<close> first occurs in \<open>s\<close>.\<close>

fun Index :: "string \<Rightarrow> string \<Rightarrow> nat option" where
  "Index [] sep = (if sep = [] then Some 0 else None)"
| "Index (c # cs) sep =
     (if take (length sep) (c # cs) = sep then Some 0 else map_option Suc (Index cs sep))"

text \<open>
  \<open>strings.SplitN(s, sep, n)\<close> for a non-empty separator and \<open>n \<ge> 0\<close>: at most \<open>n\<close>
  pieces, the last one the unsplit remainder.
\<close>

fun SplitN :: "string \<Rightarrow> string \<Rightarrow> nat \<Rightarrow> string list" where
  "SplitN s sep 0 = []"
| "SplitN s sep (Suc 0) = [s]"
| "SplitN s sep (Suc (Suc n)) =
     (case Index s sep of
        None \<Rightarrow> [s]
      | Some i \<Rightarrow> take i s # SplitN (drop (i + length sep) s) sep (Suc n))"

definition is_digit :: "char \<Rightarrow> bool" where
  "is_digit c = (c \<in> set ''0123456789'')"

fun digits_value :: "nat \<Rightarrow> string \<Rightarrow> nat" where
  "digits_value acc [] = acc"
| "digits_value acc (c # cs) = digits_value (acc * 10 + (of_char c - 48)) cs"

text \<open>
  \<open>strconv.ParseInt(s, 10, 64)\<close>: an optional sign, then at least one decimal digit and
  nothing else; a value outside the range of \<open>int64\<close> is an error too.
\<close>

definition ParseInt :: "string \<Rightarrow> int option" where
  "ParseInt s =
     (if s = [] then None
      else let neg = (hd s = CHR ''-'');
               s' = (if hd s = CHR ''+'' \<or> hd s = CHR ''-'' then tl s else s)
           in if s' = [] \<or> \<not> list_all is_digit s' then None
              else let un = digits_value 0 s'
                   in if \<not> neg \<and> un \<ge> 2 ^ 63 then None
                      else if neg \<and> un > 2 ^ 63 then None
                      else Some (if neg then - int un else int un))"

section \<open>Resources\<close>

subsection \<open>Context\<close>

record ContextOwner =
  ContextOwner_ID :: "string tfvalue"
  ContextOwner_Slug :: "string tfvalue"
  ContextOwner_Type :: "string tfvalue"

record ContextResourceModel =
  ContextResourceModel_ID :: "string tfvalue"
  ContextResourceModel_Name :: "string tfvalue"
  ContextResourceModel_Owner :: "ContextOwner tfvalue"

text \<open>
  \<open>types.ObjectValue\<close> and \<open>types.ObjectValueFrom\<close> are given attribute values of the
  declared attribute types, so they report no diagnostics.
\<close>

definition ContextResource_Read ::
  "golib \<Rightarrow> CircleCIClient \<Rightarrow> ContextResourceModel getter \<Rightarrow> ContextResourceModel response
     \<Rightarrow> world \<Rightarrow> ContextResourceModel response \<times> world" where
  "ContextResource_Read lib c state resp0 w =
     (let (diags, data) = state;
          resp = AppendDiags resp0 diags
      in if HasError (Diagnostics resp) then (resp, w)
         else
           (let ((err, context), w') =
                  Get lib c (''/context/'' @ ValueString (ContextResourceModel_ID data))
                    (Some (Decode_Context lib)) zero_Context w
            in case err of
                 Some e \<Rightarrow>
                   (AddError resp ''Client Error''
                      (''Unable to read context, got error: '' @ Error e), w')
               | None \<Rightarrow>
                   (let data1 = data\<lparr>ContextResourceModel_Name := Known (Context_Name context)\<rparr>;
                        ownerObj = Known \<lparr>ContextOwner_ID = Known (Owner_ID (Context_Owner context)),
                                           ContextOwner_Slug = Known (Owner_Slug (Context_Owner context)),
                                           ContextOwner_Type = Known (Owner_Type (Context_Owner context))\<rparr>;
                        resp1 = AppendDiags resp []
                    in if HasError (Diagnostics resp1) then (resp1, w')
                       else (State_Set resp1 (data1\<lparr>ContextResourceModel_Owner := ownerObj\<rparr>), w'))))"

definition ContextResource_Update ::
  "golib \<Rightarrow> CircleCIClient \<Rightarrow> ContextResourceModel getter \<Rightarrow> ContextResourceModel response
     \<Rightarrow> world \<Rightarrow> ContextResourceModel response \<times> world" where
  "ContextResource_Update lib c plan resp0 w =
     (let (diags, data) = plan;
          resp = AppendDiags resp0 diags
      in if HasError (Diagnostics resp) then (resp, w)
         else (AddError resp ''Update Not Supported''
                 ''CircleCI contexts cannot be updated. Changes to name or owner require destroying and recreating the context.'',
               w))"

subsection \<open>EnvironmentVariable\<close>

record EnvironmentVariableResourceModel =
  EnvironmentVariableResourceModel_ID :: "string tfvalue"
  EnvironmentVariableResourceModel_ContextID :: "string tfvalue"
  EnvironmentVariableResourceModel_Name :: "string tfvalue"
  EnvironmentVariableResourceModel_Value :: "string tfvalue"

definition EnvironmentVariableResource_Create ::
  "golib \<Rightarrow> CircleCIClient \<Rightarrow> EnvironmentVariableResourceModel getter
     \<Rightarrow> EnvironmentVariableResourceModel response \<Rightarrow> world
     \<Rightarrow> EnvironmentVariableResourceModel response \<times> world" where
  "EnvironmentVariableResource_Create lib c plan resp0 w =
     (let (diags, data) = plan;
          resp = AppendDiags resp0 diags
      in if HasError (Diagnostics resp) then (resp, w)
         else
           (let createReq = \<lparr>CreateEnvironmentVariableRequest_Name =
                                ValueString (EnvironmentVariableResourceModel_Name data),
                              CreateEnvironmentVariableRequest_Value =
                                ValueString (EnvironmentVariableResourceModel_Value data)\<rparr>;
                endpoint = ''/context/'' @ ValueString (EnvironmentVariableResourceModel_ContextID data)
                             @ ''/environment-variable/''
                             @ ValueString (EnvironmentVariableResourceModel_Name data);
                ((err, envVar), w') =
                  Put lib c endpoint (Some (Inr (Marshal_CreateEnvironmentVariableRequest lib createReq)))
                    (Some (Decode_EnvironmentVariable lib)) zero_EnvironmentVariable w
            in case err of
                 Some e \<Rightarrow>
                   (AddError resp ''Client Error''
                      (''Unable to create environment variable, got error: '' @ Error e), w')
               | None \<Rightarrow>
                   (State_Set resp
                      (data\<lparr>EnvironmentVariableResourceModel_ID :=
                               Known (ValueString (EnvironmentVariableResourceModel_ContextID data)
                                      @ '':'' @ ValueString (EnvironmentVariableResourceModel_Name data))\<rparr>),
                    w')))"

definition EnvironmentVariableResource_Read ::
  "golib \<Rightarrow> CircleCIClient \<Rightarrow> EnvironmentVariableResourceModel getter
     \<Rightarrow> EnvironmentVariableResourceModel response \<Rightarrow> world
     \<Rightarrow> EnvironmentVariableResourceModel response \<times> world" where
  "EnvironmentVariableResource_Read lib c state resp0 w =
     (let (diags, data) = state;
          resp = AppendDiags resp0 diags
      in if HasError (Diagnostics resp) then (resp, w)
         else
           (let endpoint = ''/context/'' @ ValueString (EnvironmentVariableResourceModel_ContextID data)
                             @ ''/environment-variable/''
                             @ ValueString (EnvironmentVariableResourceModel_Name data);
                ((err, envVar), w') =
                  Get lib c endpoint (Some (Decode_EnvironmentVariable lib)) zero_EnvironmentVariable w
            in case err of
                 Some e \<Rightarrow>
                   (AddError resp ''Client Error''
                      (''Unable to read environment variable, got error: '' @ Error e), w')
               | None \<Rightarrow>
                   (State_Set resp
                      (data\<lparr>EnvironmentVariableResourceModel_Name :=
                               Known (EnvironmentVariable_Variable envVar)\<rparr>),
                    w')))"

definition EnvironmentVariableResource_ImportState ::
  "golib \<Rightarrow> string \<Rightarrow> import_response \<Rightarrow> import_response" where
  "EnvironmentVariableResource_ImportState lib ID resp =
     (let parts = SplitN ID '':'' 2
      in if length parts \<noteq> 2 then
           Import_AddError resp ''Unexpected Import Identifier''
             (''Expected import identifier with format: context_id:variable_name. Got: ''
              @ strconv_Quote lib ID)
         else
           (let resp1 = SetAttribute resp ''context_id'' (StringAttr (parts ! 0));
                resp2 = SetAttribute resp1 ''name'' (StringAttr (parts ! 1))
            in SetAttribute resp2 ''id'' (StringAttr ID)))"

subsection \<open>CheckoutKey\<close>

record CheckoutKeyResourceModel =
  CheckoutKeyResourceModel_ID :: "string tfvalue"
  CheckoutKeyResourceModel_ProjectSlug :: "string tfvalue"
  CheckoutKeyResourceModel_Type :: "string tfvalue"
  CheckoutKeyResourceModel_Fingerprint :: "string tfvalue"
  CheckoutKeyResourceModel_PublicKey :: "string tfvalue"
  CheckoutKeyResourceModel_CreatedAt :: "string tfvalue"

definition CheckoutKeyResource_Update ::
  "golib \<Rightarrow> CircleCIClient \<Rightarrow> CheckoutKeyResourceModel getter \<Rightarrow> CheckoutKeyResourceModel response
     \<Rightarrow> world \<Rightarrow> CheckoutKeyResourceModel response \<times> world" where
  "CheckoutKeyResource_Update lib c plan resp w =
     (AddError resp ''Update Not Supported''
        ''CircleCI checkout keys cannot be updated. Changes require destroying and recreating the key.'',
      w)"

definition CheckoutKeyResource_ImportState ::
  "golib \<Rightarrow> string \<Rightarrow> import_response \<Rightarrow> import_response" where
  "CheckoutKeyResource_ImportState lib ID resp =
     (let parts = SplitN ID '':'' 2
      in if length parts \<noteq> 2 then
           Import_AddError resp ''Unexpected Import Identifier''
             (''Expected import identifier with format: project_slug:fingerprint. Got: ''
              @ strconv_Quote lib ID)
         else
           (let resp1 = SetAttribute resp ''project_slug'' (StringAttr (parts ! 0));
                resp2 = SetAttribute resp1 ''fingerprint'' (StringAttr (parts ! 1))
            in SetAttribute resp2 ''id'' (StringAttr ID)))"

subsection \<open>Pipeline\<close>

record PipelineCommit =
  PipelineCommit_Subject :: "string tfvalue"
  PipelineCommit_Body :: "string tfvalue"

record PipelineVCS =
  PipelineVCS_ProviderName :: "string tfvalue"
  PipelineVCS_TargetRepositoryURL :: "string tfvalue"
  PipelineVCS_Branch :: "string tfvalue"
  PipelineVCS_ReviewID :: "string tfvalue"
  PipelineVCS_ReviewURL :: "string tfvalue"
  PipelineVCS_Revision :: "string tfvalue"
  PipelineVCS_Tag :: "string tfvalue"
  PipelineVCS_Commit :: "PipelineCommit tfvalue"

record PipelineResourceModel =
  PipelineResourceModel_ID :: "string tfvalue"
  PipelineResourceModel_ProjectSlug :: "string tfvalue"
  PipelineResourceModel_Branch :: "string tfvalue"
  PipelineResourceModel_Tag :: "string tfvalue"
  PipelineResourceModel_Parameters :: tfmap
  PipelineResourceModel_Number :: "int tfvalue"
  PipelineResourceModel_State :: "string tfvalue"
  PipelineResourceModel_CreatedAt :: "string tfvalue"
  PipelineResourceModel_UpdatedAt :: "string tfvalue"
  PipelineResourceModel_VCS :: "PipelineVCS tfvalue"

definition EscapeProjectSlug :: "golib \<Rightarrow> string \<Rightarrow> string" where
  "EscapeProjectSlug lib slug = url_PathEscape lib slug"

definition PipelineResource_Create ::
  "golib \<Rightarrow> CircleCIClient \<Rightarrow> PipelineResourceModel getter \<Rightarrow> PipelineResourceModel response
     \<Rightarrow> world \<Rightarrow> PipelineResourceModel response \<times> world" where
  "PipelineResource_Create lib c plan resp0 w =
     (let (diags, data) = plan;
          resp = AppendDiags resp0 diags
      in if HasError (Diagnostics resp) then (resp, w)
         else if IsNull (PipelineResourceModel_Branch data) \<and> IsNull (PipelineResourceModel_Tag data) then
           (AddAttributeError resp ''branch'' ''Missing Required Attribute''
              ''Either 'branch' or 'tag' must be specified.'', w)
         else if \<not> IsNull (PipelineResourceModel_Branch data)
                 \<and> \<not> IsNull (PipelineResourceModel_Tag data) then
           (AddAttributeError resp ''branch'' ''Conflicting Attributes''
              ''Cannot specify both 'branch' and 'tag'.'', w)
         else
           (let (parameters, resp1) =
                  (if \<not> Map_IsNull (PipelineResourceModel_Parameters data)
                   then (Some (snd (Map_ElementsAs (PipelineResourceModel_Parameters data))),
                         AppendDiags resp (fst (Map_ElementsAs (PipelineResourceModel_Parameters data))))
                   else (None, resp))
            in if HasError (Diagnostics resp1) then (resp1, w)
               else
                 (let triggerReq =
                        \<lparr>TriggerPipelineRequest_Branch =
                           (if \<not> IsNull (PipelineResourceModel_Branch data)
                            then ValueString (PipelineResourceModel_Branch data) else []),
                         TriggerPipelineRequest_Tag =
                           (if \<not> IsNull (PipelineResourceModel_Tag data)
                            then ValueString (PipelineResourceModel_Tag data) else []),
                         TriggerPipelineRequest_Parameters = parameters\<rparr>;
                      slug = EscapeProjectSlug lib (ValueString (PipelineResourceModel_ProjectSlug data));
                      endpoint = ''/project/'' @ slug @ ''/pipeline'';
                      ((err, pipeline), w') =
                        Post lib c endpoint (Some (Inr (Marshal_TriggerPipelineRequest lib triggerReq)))
                          (Some (Decode_Pipeline lib)) zero_Pipeline w
                  in case err of
                       Some e \<Rightarrow>
                         (AddError resp1 ''Client Error''
                            (''Unable to trigger pipeline, got error: '' @ Error e), w')
                     | None \<Rightarrow>
                         (let data1 = data\<lparr>PipelineResourceModel_ID := Known (Pipeline_ID pipeline),
                                          PipelineResourceModel_Number := Known (Pipeline_Number pipeline),
                                          PipelineResourceModel_State := Known (Pipeline_State pipeline),
                                          PipelineResourceModel_CreatedAt := Known (Pipeline_CreatedAt pipeline),
                                          PipelineResourceModel_UpdatedAt := Known (Pipeline_UpdatedAt pipeline)\<rparr>;
                              vcs = Pipeline_VCS pipeline;
                              commitObj = Known \<lparr>PipelineCommit_Subject = Known (CommitInfo_Subject (VCSInfo_Commit vcs)),
                                                  PipelineCommit_Body = Known (CommitInfo_Body (VCSInfo_Commit vcs))\<rparr>;
                              resp2 = AppendDiags resp1 []
                          in if HasError (Diagnostics resp2) then (resp2, w')
                             else
                               (let vcsObj = Known
                                      \<lparr>PipelineVCS_ProviderName = Known (VCSInfo_ProviderName vcs),
                                       PipelineVCS_TargetRepositoryURL = Known (VCSInfo_TargetRepositoryURL vcs),
                                       PipelineVCS_Branch = Known (VCSInfo_Branch vcs),
                                       PipelineVCS_ReviewID = Known (VCSInfo_ReviewID vcs),
                                       PipelineVCS_ReviewURL = Known (VCSInfo_ReviewURL vcs),
                                       PipelineVCS_Revision = Known (VCSInfo_Revision vcs),
                                       PipelineVCS_Tag = Known (VCSInfo_Tag vcs),
                                       PipelineVCS_Commit = commitObj\<rparr>;
                                    resp3 = AppendDiags resp2 []
                                in if HasError (Diagnostics resp3) then (resp3, w')
                                   else (State_Set resp3 (data1\<lparr>PipelineResourceModel_VCS := vcsObj\<rparr>),
                                         w'))))))"

definition PipelineResource_Read ::
  "golib \<Rightarrow> CircleCIClient \<Rightarrow> PipelineResourceModel getter \<Rightarrow> PipelineResourceModel response
     \<Rightarrow> world \<Rightarrow> PipelineResourceModel response \<times> world" where
  "PipelineResource_Read lib c state resp0 w =
     (let (diags, data) = state;
          resp = AppendDiags resp0 diags
      in if HasError (Diagnostics resp) then (resp, w)
         else
           (let endpoint = ''/pipeline/'' @ ValueString (PipelineResourceModel_ID data);
                ((err, pipeline), w') = Get lib c endpoint (Some (Decode_Pipeline lib)) zero_Pipeline w
            in case err of
                 Some e \<Rightarrow>
                   (AddError resp ''Client Error''
                      (''Unable to read pipeline, got error: '' @ Error e), w')
               | None \<Rightarrow>
                   (State_Set resp
                      (data\<lparr>PipelineResourceModel_Number := Known (Pipeline_Number pipeline),
                            PipelineResourceModel_State := Known (Pipeline_State pipeline),
                            PipelineResourceModel_CreatedAt := Known (Pipeline_CreatedAt pipeline),
                            PipelineResourceModel_UpdatedAt := Known (Pipeline_UpdatedAt pipeline)\<rparr>),
                    w')))"

definition PipelineResource_Update ::
  "golib \<Rightarrow> CircleCIClient \<Rightarrow> PipelineResourceModel getter \<Rightarrow> PipelineResourceModel response
     \<Rightarrow> world \<Rightarrow> PipelineResourceModel response \<times> world" where
  "PipelineResource_Update lib c plan resp w =
     (AddError resp ''Update Not Supported''
        ''Pipelines cannot be updated once created. To trigger a new pipeline, create a new resource.'',
      w)"

definition PipelineResource_Delete ::
  "golib \<Rightarrow> CircleCIClient \<Rightarrow> PipelineResourceModel getter \<Rightarrow> PipelineResourceModel response
     \<Rightarrow> world \<Rightarrow> PipelineResourceModel response \<times> world" where
  "PipelineResource_Delete lib c state resp0 w =
     (let (diags, data) = state;
          resp = AppendDiags resp0 diags
      in if HasError (Diagnostics resp) then (resp, w)
         else if ValueString (PipelineResourceModel_State data) = ''running'' then
           (let endpoint = ''/pipeline/'' @ ValueString (PipelineResourceModel_ID data) @ ''/cancel'';
                ((err, u), w') = Post lib c endpoint None None () w
            in case err of
                 Some e \<Rightarrow>
                   (AddWarning resp ''Pipeline Cancel Failed''
                      (''Could not cancel running pipeline: '' @ Error e), w')
               | None \<Rightarrow> (resp, w'))
         else (resp, w))"

subsection \<open>Job\<close>

record JobResourceModel =
  JobResourceModel_ID :: "string tfvalue"
  JobResourceModel_JobNumber :: "int tfvalue"
  JobResourceModel_Name :: "string tfvalue"
  JobResourceModel_ProjectSlug :: "string tfvalue"
  JobResourceModel_Status :: "string tfvalue"
  JobResourceModel_StartedAt :: "string tfvalue"
  JobResourceModel_StoppedAt :: "string tfvalue"
  JobResourceModel_ApprovalID :: "string tfvalue"
  JobResourceModel_ApprovalType :: "string tfvalue"
  JobResourceModel_Action :: "string tfvalue"

definition performJobAction ::
  "golib \<Rightarrow> CircleCIClient \<Rightarrow> string \<Rightarrow> int \<Rightarrow> string \<Rightarrow> string \<Rightarrow> world
     \<Rightarrow> error option \<times> world" where
  "performJobAction lib c projectSlug jobNumber action approvalID w =
     (if action = ''cancel'' then
        (let endpoint = ''/v2/project/'' @ projectSlug @ ''/job/'' @ itoa jobNumber @ ''/cancel''
         in case MakeRequest lib c ''POST'' endpoint None w of
              (Inl err, w') \<Rightarrow> (Some err, w')
            | (Inr httpResp, w') \<Rightarrow>
                if StatusCode httpResp \<noteq> 200 then
                  (Some (Errorf (''failed to cancel job, status: '' @ itoa (StatusCode httpResp))), w')
                else (None, w'))
      else if action = ''approve'' then
        (if approvalID = [] then
           (Some (Errorf ''approval_id is required for approve action''), w)
         else
           (let endpoint = ''/v2/workflow/'' @ projectSlug @ ''/approve/'' @ approvalID
            in case MakeRequest lib c ''POST'' endpoint None w of
                 (Inl err, w') \<Rightarrow> (Some err, w')
               | (Inr httpResp, w') \<Rightarrow>
                   if StatusCode httpResp \<noteq> 200 then
                     (Some (Errorf (''failed to approve job, status: '' @ itoa (StatusCode httpResp))), w')
                   else (None, w')))
      else if action = ''rerun'' then
        (let endpoint = ''/v2/project/'' @ projectSlug @ ''/job/'' @ itoa jobNumber @ ''/rerun''
         in case MakeRequest lib c ''POST'' endpoint None w of
              (Inl err, w') \<Rightarrow> (Some err, w')
            | (Inr httpResp, w') \<Rightarrow>
                if StatusCode httpResp \<noteq> 200 then
                  (Some (Errorf (''failed to rerun job, status: '' @ itoa (StatusCode httpResp))), w')
                else (None, w'))
      else
        (Some (Errorf (''unsupported action: '' @ action
                       @ ''. Supported actions: cancel, approve, rerun'')), w))"

definition mapJobToModel :: "JobAPI \<Rightarrow> JobResourceModel \<Rightarrow> JobResourceModel" where
  "mapJobToModel job data =
     data\<lparr>JobResourceModel_ID := Known (JobAPI_ID job),
          JobResourceModel_JobNumber := Known (JobAPI_JobNumber job),
          JobResourceModel_Name := Known (JobAPI_Name job),
          JobResourceModel_ProjectSlug := Known (JobAPI_ProjectSlug job),
          JobResourceModel_Status := Known (JobAPI_Status job),
          JobResourceModel_StartedAt := Known (JobAPI_StartedAt job),
          JobResourceModel_StoppedAt :=
            (if JobAPI_StoppedAt job \<noteq> [] then Known (JobAPI_StoppedAt job) else Null),
          JobResourceModel_ApprovalID :=
            (if JobAPI_ApprovalID job \<noteq> [] then Known (JobAPI_ApprovalID job) else Null),
          JobResourceModel_ApprovalType :=
            (if JobAPI_ApprovalType job \<noteq> [] then Known (JobAPI_ApprovalType job) else Null)\<rparr>"

definition JobResource_Create ::
  "golib \<Rightarrow> CircleCIClient \<Rightarrow> JobResourceModel getter \<Rightarrow> JobResourceModel response
     \<Rightarrow> world \<Rightarrow> JobResourceModel response \<times> world" where
  "JobResource_Create lib c plan resp0 w =
     (let (diags, data) = plan;
          resp = AppendDiags resp0 diags
      in if HasError (Diagnostics resp) then (resp, w)
         else
           (let projectSlug = ValueString (JobResourceModel_ProjectSlug data);
                jobNumber = ValueInt64 (JobResourceModel_JobNumber data);
                endpoint = ''/v2/project/'' @ projectSlug @ ''/job/'' @ itoa jobNumber
            in case MakeRequest lib c ''GET'' endpoint None w of
                 (Inl err, w1) \<Rightarrow> (AddError resp ''Failed to get job'' (Error err), w1)
               | (Inr httpResp, w1) \<Rightarrow>
                   if StatusCode httpResp \<noteq> 200 then
                     (AddError resp ''Failed to get job''
                        (''CircleCI API returned status '' @ itoa (StatusCode httpResp)), w1)
                   else
                     (case Decode_JobAPI lib (Body httpResp) of
                        Inl e \<Rightarrow> (AddError resp ''Failed to decode response'' e, w1)
                      | Inr job \<Rightarrow>
                          (let action = ValueString (JobResourceModel_Action data);
                               (err, w2) =
                                 (if action \<noteq> [] then
                                    performJobAction lib c projectSlug jobNumber action
                                      (ValueString (JobResourceModel_ApprovalID data)) w1
                                  else (None, w1))
                           in case err of
                                Some e \<Rightarrow> (AddError resp ''Failed to perform job action'' (Error e), w2)
                              | None \<Rightarrow> (State_Set resp (mapJobToModel job data), w2)))))"

definition JobResource_Read ::
  "golib \<Rightarrow> CircleCIClient \<Rightarrow> JobResourceModel getter \<Rightarrow> JobResourceModel response
     \<Rightarrow> world \<Rightarrow> JobResourceModel response \<times> world" where
  "JobResource_Read lib c state resp0 w =
     (let (diags, data) = state;
          resp = AppendDiags resp0 diags
      in if HasError (Diagnostics resp) then (resp, w)
         else
           (let projectSlug = ValueString (JobResourceModel_ProjectSlug data);
                jobNumber = ValueInt64 (JobResourceModel_JobNumber data);
                endpoint = ''/v2/project/'' @ projectSlug @ ''/job/'' @ itoa jobNumber
            in case MakeRequest lib c ''GET'' endpoint None w of
                 (Inl err, w1) \<Rightarrow> (AddError resp ''Failed to get job'' (Error err), w1)
               | (Inr httpResp, w1) \<Rightarrow>
                   if StatusCode httpResp = 404 then (RemoveResource resp, w1)
                   else if StatusCode httpResp \<noteq> 200 then
                     (AddError resp ''Failed to get job''
                        (''CircleCI API returned status '' @ itoa (StatusCode httpResp)), w1)
                   else
                     (case Decode_JobAPI lib (Body httpResp) of
                        Inl e \<Rightarrow> (AddError resp ''Failed to decode response'' e, w1)
                      | Inr job \<Rightarrow> (State_Set resp (mapJobToModel job data), w1))))"

text \<open>
  \<open>Update\<close> runs \<open>Read\<close> on a \<open>ReadResponse\<close> of its own, built from copies of the update
  response's state and diagnostics: what \<open>Read\<close> stores there does not reach the update
  response.
\<close>

definition JobResource_Update ::
  "golib \<Rightarrow> CircleCIClient \<Rightarrow> JobResourceModel getter \<Rightarrow> JobResourceModel getter
     \<Rightarrow> JobResourceModel response \<Rightarrow> world \<Rightarrow> JobResourceModel response \<times> world" where
  "JobResource_Update lib c plan state resp0 w =
     (let (diags, data) = plan;
          resp = AppendDiags resp0 diags
      in if HasError (Diagnostics resp) then (resp, w)
         else
           (let action = ValueString (JobResourceModel_Action data);
                (err, w1) =
                  (if action \<noteq> [] then
                     performJobAction lib c (ValueString (JobResourceModel_ProjectSlug data))
                       (ValueInt64 (JobResourceModel_JobNumber data)) action
                       (ValueString (JobResourceModel_ApprovalID data)) w
                   else (None, w))
            in case err of
                 Some e \<Rightarrow> (AddError resp ''Failed to perform job action'' (Error e), w1)
               | None \<Rightarrow>
                   (let (readResp, w2) =
                          JobResource_Read lib c state
                            \<lparr>State = State resp, Diagnostics = Diagnostics resp\<rparr> w1
                    in (resp, w2))))"

definition JobResource_ImportState :: "golib \<Rightarrow> string \<Rightarrow> import_response \<Rightarrow> import_response" where
  "JobResource_ImportState lib ID resp =
     (let idParts = SplitN ID '':'' 2
      in if length idParts \<noteq> 2 then
           Import_AddError resp ''Invalid import ID''
             (''Import ID must be in format 'project_slug:job_number' (e.g., 'gh/myorg/myrepo:123'), got: ''
              @ strconv_Quote lib ID)
         else
           (let projectSlug = idParts ! 0;
                jobNumberStr = idParts ! 1
            in case ParseInt jobNumberStr of
                 None \<Rightarrow>
                   Import_AddError resp ''Invalid job number''
                     (''Job number must be a valid integer, got: '' @ strconv_Quote lib jobNumberStr)
               | Some jobNumber \<Rightarrow>
                   (let resp1 = SetAttribute resp ''project_slug'' (StringAttr projectSlug);
                        resp2 = SetAttribute resp1 ''job_number'' (Int64Attr jobNumber)
                    in SetAttribute resp2 ''id'' (StringAttr ID))))"

subsection \<open>RunnerToken\<close>

record RunnerTokenResourceModel =
  RunnerTokenResourceModel_ID :: "string tfvalue"
  RunnerTokenResourceModel_ResourceClass :: "string tfvalue"
  RunnerTokenResourceModel_Nickname :: "string tfvalue"
  RunnerTokenResourceModel_Token :: "string tfvalue"
  RunnerTokenResourceModel_CreatedAt :: "string tfvalue"

text \<open>The runner token resource builds its requests itself and calls the HTTP client directly.\<close>

definition RunnerTokenResource_Read ::
  "golib \<Rightarrow> CircleCIClient \<Rightarrow> RunnerTokenResourceModel getter \<Rightarrow> RunnerTokenResourceModel response
     \<Rightarrow> world \<Rightarrow> RunnerTokenResourceModel response \<times> world" where
  "RunnerTokenResource_Read lib c state resp0 w =
     (let (diags, data) = state;
          resp = AppendDiags resp0 diags
      in if HasError (Diagnostics resp) then (resp, w)
         else
           (let url = BaseURL c @ ''/runner/token/'' @ ValueString (RunnerTokenResourceModel_ID data)
            in case NewRequest_error lib ''GET'' url of
                 Some e \<Rightarrow>
                   (AddError resp ''Error creating request''
                      (''Unable to create runner token request: '' @ e), w)
               | None \<Rightarrow>
                   (let httpReq = \<lparr>Method = ''GET'', URL = url,
                                    Header = [(''Circle-Token'', ApiToken c),
                                              (''Accept'', ''application/json'')],
                                    ReqBody = None\<rparr>;
                        (r, w') = HTTPClient_Do httpReq w
                    in case r of
                         Inl e \<Rightarrow>
                           (AddError resp ''Error reading runner token''
                              (''Unable to read runner token: '' @ e), w')
                       | Inr httpResp \<Rightarrow>
                           if StatusCode httpResp = 404 then (RemoveResource resp, w')
                           else if StatusCode httpResp \<noteq> 200 then
                             (AddError resp ''Error reading runner token''
                                (''API returned status '' @ itoa (StatusCode httpResp)
                                 @ '' when reading runner token''), w')
                           else
                             (case Decode_RunnerTokenRead lib (Body httpResp) of
                                Inl e \<Rightarrow>
                                  (AddError resp ''Error parsing response''
                                     (''Unable to parse runner token response: '' @ e), w')
                              | Inr apiResponse \<Rightarrow>
                                  (State_Set resp
                                     (data\<lparr>RunnerTokenResourceModel_ID :=
                                              Known (RunnerTokenRead_ID apiResponse),
                                           RunnerTokenResourceModel_ResourceClass :=
                                              Known (RunnerTokenRead_ResourceClass apiResponse),
                                           RunnerTokenResourceModel_Nickname :=
                                              Known (RunnerTokenRead_Nickname apiResponse),
                                           RunnerTokenResourceModel_CreatedAt :=
                                              Known (RunnerTokenRead_CreatedAt apiResponse)\<rparr>),
                                   w')))))"

definition RunnerTokenResource_Update ::
  "golib \<Rightarrow> CircleCIClient \<Rightarrow> RunnerTokenResourceModel getter \<Rightarrow> RunnerTokenResourceModel response
     \<Rightarrow> world \<Rightarrow> RunnerTokenResourceModel response \<times> world" where
  "RunnerTokenResource_Update lib c plan resp w =
     (AddError resp ''Runner token cannot be updated''
        ''Runner tokens are immutable. Any changes require creating a new token.'',
      w)"

definition RunnerTokenResource_Delete ::
  "golib \<Rightarrow> CircleCIClient \<Rightarrow> RunnerTokenResourceModel getter \<Rightarrow> RunnerTokenResourceModel response
     \<Rightarrow> world \<Rightarrow> RunnerTokenResourceModel response \<times> world" where
  "RunnerTokenResource_Delete lib c state resp0 w =
     (let (diags, data) = state;
          resp = AppendDiags resp0 diags
      in if HasError (Diagnostics resp) then (resp, w)
         else
           (let url = BaseURL c @ ''/runner/token/'' @ ValueString (RunnerTokenResourceModel_ID data)
            in case NewRequest_error lib ''DELETE'' url of
                 Some e \<Rightarrow>
                   (AddError resp ''Error creating request''
                      (''Unable to create runner token deletion request: '' @ e), w)
               | None \<Rightarrow>
                   (let httpReq = \<lparr>Method = ''DELETE'', URL = url,
                                    Header = [(''Circle-Token'', ApiToken c)],
                                    ReqBody = None\<rparr>;
                        (r, w') = HTTPClient_Do httpReq w
                    in case r of
                         Inl e \<Rightarrow>
                           (AddError resp ''Error deleting runner token''
                              (''Unable to delete runner token: '' @ e), w')
                       | Inr httpResp \<Rightarrow>
                           if StatusCode httpResp \<noteq> 200 \<and> StatusCode httpResp \<noteq> 404 then
                             (AddError resp ''Error deleting runner token''
                                (''API returned status '' @ itoa (StatusCode httpResp)
                                 @ '' when deleting runner token''), w')
                           else (resp, w'))))"

section \<open>Fixtures for concrete runs\<close>

text \<open>
  A small stand-in for the library, for running the model on concrete inputs. Every
  request can be created. A body decodes unless it is empty: an error body
  \<open>!text\<close> is the API error with that message; a page body is the next token (\<open>.\<close> for
  none) followed by one character per item; any other body is the one string field the
  fixture fills (a context's name, a variable's name, a pipeline's state, a job's
  status, a runner token's id). A URL keeps its text, with \<open>?page-token=\<close> and the
  token appended when that query parameter is set. Quoting adds double quotes.
\<close>

definition toy_page :: "string \<Rightarrow> string + PaginatedResponse" where
  "toy_page b =
     (case b of
        [] \<Rightarrow> Inl ''EOF''
      | t # items \<Rightarrow>
          Inr \<lparr>Items = map (\<lambda>ch. [ch]) items,
               NextPageToken = (if t = CHR ''.'' then [] else [t])\<rparr>)"

definition toy_field :: "(string \<Rightarrow> 'a) \<Rightarrow> string \<Rightarrow> string + 'a" where
  "toy_field mk b = (if b = [] then Inl ''EOF'' else Inr (mk b))"

definition stub_lib :: golib where
  "stub_lib =
     \<lparr>NewRequest_error = (\<lambda>method url. None),
      Unmarshal_APIError =
        (\<lambda>b. case b of
               [] \<Rightarrow> Inl ''unexpected end of JSON input''
             | ch # msg \<Rightarrow> if ch = CHR ''!'' then Inr \<lparr>Message = msg, Code = 0\<rparr>
                           else Inl ''invalid character''),
      Decode_PaginatedResponse = toy_page,
      Decode_Context = toy_field (\<lambda>b. zero_Context\<lparr>Context_Name := b\<rparr>),
      Decode_EnvironmentVariable =
        toy_field (\<lambda>b. zero_EnvironmentVariable\<lparr>EnvironmentVariable_Variable := b\<rparr>),
      Decode_Pipeline = toy_field (\<lambda>b. zero_Pipeline\<lparr>Pipeline_State := b\<rparr>),
      Decode_JobAPI =
        toy_field (\<lambda>b. \<lparr>JobAPI_ID = ''job-id'', JobAPI_JobNumber = 7, JobAPI_Name = ''build'',
                          JobAPI_ProjectSlug = ''gh/org/repo'', JobAPI_Status = b,
                          JobAPI_StartedAt = [], JobAPI_StoppedAt = [], JobAPI_ApprovalID = [],
                          JobAPI_ApprovalType = []\<rparr>),
      Decode_RunnerTokenRead =
        toy_field (\<lambda>b. \<lparr>RunnerTokenRead_ID = b, RunnerTokenRead_ResourceClass = ''org/class'',
                          RunnerTokenRead_Nickname = ''nick'', RunnerTokenRead_CreatedAt = []\<rparr>),
      Marshal_CreateEnvironmentVariableRequest =
        (\<lambda>r. CreateEnvironmentVariableRequest_Name r @ ''='' @ CreateEnvironmentVariableRequest_Value r),
      Marshal_TriggerPipelineRequest =
        (\<lambda>r. TriggerPipelineRequest_Branch r @ ''|'' @ TriggerPipelineRequest_Tag r),
      url_Parse = (\<lambda>s. Inr \<lparr>url_rest = s, url_query = Map.empty\<rparr>),
      url_String = (\<lambda>u. url_rest u @ (case url_query u ''page-token'' of
                                          Some vs \<Rightarrow> ''?page-token='' @ concat vs
                                        | None \<Rightarrow> [])),
      url_PathEscape = (\<lambda>s. s),
      strconv_Quote = (\<lambda>s. [CHR 0x22] @ s @ [CHR 0x22])\<rparr>"

definition scripted :: "(string + http_response) list \<Rightarrow> world" where
  "scripted rs =
     \<lparr>replies = (\<lambda>i. if i < length rs then rs ! i else Inl ''connection refused''),
      sent = []\<rparr>"

definition test_client :: CircleCIClient where
  "test_client = \<lparr>ApiToken = ''token'', BaseURL = ''https://circleci.test/api/v2''\<rparr>"

text \<open>Tracked resources for the concrete runs.\<close>

definition context_c1 :: ContextResourceModel where
  "context_c1 =
     \<lparr>ContextResourceModel_ID = Known ''c1'', ContextResourceModel_Name = Known ''shared-context'',
      ContextResourceModel_Owner =
        Known \<lparr>ContextOwner_ID = Null, ContextOwner_Slug = Known ''github'',
               ContextOwner_Type = Known ''organization''\<rparr>\<rparr>"

definition envvar_secret :: EnvironmentVariableResourceModel where
  "envvar_secret =
     \<lparr>EnvironmentVariableResourceModel_ID = Unknown,
      EnvironmentVariableResourceModel_ContextID = Known ''c1'',
      EnvironmentVariableResourceModel_Name = Known ''API_KEY'',
      EnvironmentVariableResourceModel_Value = Known ''s3cret''\<rparr>"

definition pipeline_p1 :: PipelineResourceModel where
  "pipeline_p1 =
     \<lparr>PipelineResourceModel_ID = Known ''p1'',
      PipelineResourceModel_ProjectSlug = Known ''gh/org/repo'',
      PipelineResourceModel_Branch = Known ''main'',
      PipelineResourceModel_Tag = Null,
      PipelineResourceModel_Parameters = \<lparr>Map_IsNull = True, Map_ElementsAs = ([], Map.empty)\<rparr>,
      PipelineResourceModel_Number = Known 12,
      PipelineResourceModel_State = Known ''running'',
      PipelineResourceModel_CreatedAt = Known ''2024-01-01T00:00:00Z'',
      PipelineResourceModel_UpdatedAt = Known ''2024-01-01T00:00:00Z'',
      PipelineResourceModel_VCS = Null\<rparr>"

definition job_approve :: JobResourceModel where
  "job_approve =
     \<lparr>JobResourceModel_ID = Unknown, JobResourceModel_JobNumber = Known 7,
      JobResourceModel_Name = Unknown, JobResourceModel_ProjectSlug = Known ''gh/org/repo'',
      JobResourceModel_Status = Unknown, JobResourceModel_StartedAt = Unknown,
      JobResourceModel_StoppedAt = Unknown, JobResourceModel_ApprovalID = Null,
      JobResourceModel_ApprovalType = Unknown, JobResourceModel_Action = Known ''approve''\<rparr>"

definition runner_token_t1 :: RunnerTokenResourceModel where
  "runner_token_t1 =
     \<lparr>RunnerTokenResourceModel_ID = Known ''t1'',
      RunnerTokenResourceModel_ResourceClass = Known ''org/class'',
      RunnerTokenResourceModel_Nickname = Known ''nick'',
      RunnerTokenResourceModel_Token = Known ''tok3n'',
      RunnerTokenResourceModel_CreatedAt = Known ''2024-01-01T00:00:00Z''\<rparr>"

definition checkout_key_k1 :: CheckoutKeyResourceModel where
  "checkout_key_k1 =
     \<lparr>CheckoutKeyResourceModel_ID = Known ''gh/org/repo:aa:bb'',
      CheckoutKeyResourceModel_ProjectSlug = Known ''gh/org/repo'',
      CheckoutKeyResourceModel_Type = Known ''deploy-key'',
      CheckoutKeyResourceModel_Fingerprint = Known ''aa:bb'',
      CheckoutKeyResourceModel_PublicKey = Known ''ssh-rsa AAAA'',
      CheckoutKeyResourceModel_CreatedAt = Known ''2024-01-01T00:00:00Z''\<rparr>"

definition not_found :: "string + http_response" where
  "not_found = Inr \<lparr>StatusCode = 404, Body = ''!Not found''\<rparr>"

section \<open>Specification vocabulary\<close>

text \<open>
  The query parameters and the request of the \<open>GetAllPages\<close> iteration that carries
  the token \<open>tok\<close> (empty in the first iteration).
\<close>

definition page_params :: "(string \<rightharpoonup> string) \<Rightarrow> string \<Rightarrow> (string \<rightharpoonup> string)" where
  "page_params params tok = (if tok \<noteq> [] then params(''page-token'' \<mapsto> tok) else params)"

definition page_request ::
  "golib \<Rightarrow> CircleCIClient \<Rightarrow> string \<Rightarrow> (string \<rightharpoonup> string) \<Rightarrow> string \<Rightarrow> http_request" where
  "page_request lib c endpoint params tok =
     \<lparr>Method = ''GET'', URL = BaseURL c @ BuildURL lib endpoint (page_params params tok),
      Header = [(''Circle-Token'', ApiToken c),
                (''Content-Type'', ''application/json''),
                (''Accept'', ''application/json''),
                (''User-Agent'', ''terraform-provider-circleci'')],
      ReqBody = None\<rparr>"

text \<open>
  \<open>serves lib rs n pages\<close>: from its \<open>n\<close>-th call on, the transport delivers one
  successful response per element of \<open>pages\<close>, in order, whose body decodes to it.
\<close>

fun serves :: "golib \<Rightarrow> (nat \<Rightarrow> string + http_response) \<Rightarrow> nat \<Rightarrow> PaginatedResponse list \<Rightarrow> bool" where
  "serves lib rs n [] = True"
| "serves lib rs n (p # ps) =
     ((case rs n of
         Inl e \<Rightarrow> False
       | Inr r \<Rightarrow> StatusCode r < 400 \<and> Decode_PaginatedResponse lib (Body r) = Inr p)
      \<and> serves lib rs (Suc n) ps)"

text \<open>The request that \<open>MakeRequest\<close> hands to the transport.\<close>

definition client_request :: "CircleCIClient \<Rightarrow> string \<Rightarrow> string \<Rightarrow> body \<Rightarrow> http_request" where
  "client_request c method endpoint body =
     \<lparr>Method = method, URL = BaseURL c @ endpoint,
      Header = [(''Circle-Token'', ApiToken c),
                (''Content-Type'', ''application/json''),
                (''Accept'', ''application/json''),
                (''User-Agent'', ''terraform-provider-circleci'')],
      ReqBody = (case body of Some (Inr jsonData) \<Rightarrow> Some jsonData | _ \<Rightarrow> None)\<rparr>"

section \<open>Auxiliary facts\<close>

lemma set_Append: "set (Append diags ds) = set diags \<union> set ds"
  by (induction ds arbitrary: diags) auto

lemma HasError_iff: "HasError ds \<longleftrightarrow> (\<exists>d \<in> set ds. is_error d)"
  by (induction ds) auto

lemma HasError_Append: "HasError (Append diags ds) \<longleftrightarrow> HasError diags \<or> HasError ds"
  by (auto simp: HasError_iff set_Append)

declare Append.simps(2) [simp del]

lemma AddError_facts:
  "HasError (Diagnostics (AddError resp summary detail))"
  "ErrorDiagnostic summary detail \<in> set (Diagnostics (AddError resp summary detail))"
  "State (AddError resp summary detail) = State resp"
  by (simp_all add: AddError_def AppendDiags_def HasError_Append set_Append)

lemma AddAttributeError_facts:
  "HasError (Diagnostics (AddAttributeError resp path summary detail))"
  "AttributeErrorDiagnostic path summary detail
     \<in> set (Diagnostics (AddAttributeError resp path summary detail))"
  "State (AddAttributeError resp path summary detail) = State resp"
  by (simp_all add: AddAttributeError_def AppendDiags_def HasError_Append set_Append)

lemma AddWarning_facts:
  "HasError (Diagnostics (AddWarning resp summary detail)) = HasError (Diagnostics resp)"
  "WarningDiagnostic summary detail \<in> set (Diagnostics (AddWarning resp summary detail))"
  "State (AddWarning resp summary detail) = State resp"
  by (simp_all add: AddWarning_def AppendDiags_def HasError_Append set_Append)

lemma AppendDiags_facts:
  "HasError (Diagnostics (AppendDiags resp ds)) = (HasError (Diagnostics resp) \<or> HasError ds)"
  "set (Diagnostics (AppendDiags resp ds)) = set (Diagnostics resp) \<union> set ds"
  "State (AppendDiags resp ds) = State resp"
  "AppendDiags resp [] = resp"
  by (simp_all add: AppendDiags_def HasError_Append set_Append)

lemma State_Set_facts:
  "Diagnostics (State_Set resp data) = Diagnostics resp"
  "State (State_Set resp data) = Some data"
  by (simp_all add: State_Set_def AppendDiags_def)

lemma MakeRequest_reply:
  assumes "\<And>e. body \<noteq> Some (Inl e)"
    and "NewRequest_error lib method (BaseURL c @ endpoint) = None"
  shows "MakeRequest lib c method endpoint body w =
     ((case replies w (length (sent w)) of
         Inl e \<Rightarrow> Inl (DoError e)
       | Inr resp \<Rightarrow>
           if StatusCode resp \<ge> 400 then
             (case Unmarshal_APIError lib (Body resp) of
                Inr apiErr \<Rightarrow> Inl (APIErr apiErr)
              | Inl _ \<Rightarrow> Inl (APIErr \<lparr>Message = ''HTTP '' @ itoa (StatusCode resp) @ '': '' @ Body resp,
                                       Code = StatusCode resp\<rparr>))
           else Inr resp),
      w\<lparr>sent := sent w @ [client_request c method endpoint body]\<rparr>)"
proof -
  have "body = None \<or> (\<exists>j. body = Some (Inr j))"
    using assms(1) by (cases body) (auto intro: sum.exhaust)
  then show ?thesis
    using assms(2)
    by (auto simp: MakeRequest_def HTTPClient_Do_def Let_def client_request_def split: sum.splits)
qed

lemma MakeRequest_sent:
  "sent (snd (MakeRequest lib c method endpoint body w)) =
     sent w @ (if (\<forall>e. body \<noteq> Some (Inl e))
                  \<and> NewRequest_error lib method (BaseURL c @ endpoint) = None
               then [client_request c method endpoint body] else [])"
  by (auto simp: MakeRequest_def HTTPClient_Do_def Let_def client_request_def
           split: sum.splits option.splits if_splits prod.splits)

lemma page_request_eq:
  "page_request lib c endpoint params tok =
     client_request c ''GET'' (BuildURL lib endpoint (page_params params tok)) None"
  by (simp add: page_request_def client_request_def)

lemma Get_page:
  assumes "NewRequest_error lib ''GET'' (BaseURL c @ BuildURL lib endpoint (page_params params tok)) = None"
    and "replies w (length (sent w)) = Inr r" and "StatusCode r < 400"
    and "Decode_PaginatedResponse lib (Body r) = Inr p"
  shows "Get lib c (BuildURL lib endpoint (page_params params tok))
           (Some (Decode_PaginatedResponse lib)) zero_PaginatedResponse w =
         ((None, p), w\<lparr>sent := sent w @ [page_request lib c endpoint params tok]\<rparr>)"
  using assms by (simp add: Get_def MakeRequest_reply page_request_eq)

lemma GetAllPages_loop_pages:
  assumes "pages \<noteq> []"
    and "\<forall>p \<in> set (butlast pages). NextPageToken p \<noteq> []"
    and "NextPageToken (last pages) = []"
    and "serves lib (replies w) (length (sent w)) pages"
    and "\<forall>t \<in> set (tok # map NextPageToken (butlast pages)).
           NewRequest_error lib ''GET'' (BaseURL c @ BuildURL lib endpoint (page_params params t)) = None"
  shows "GetAllPages_loop lib c endpoint params acc tok w =
     Some (Inr (acc @ concat (map Items pages)),
           w\<lparr>sent := sent w @ map (page_request lib c endpoint params)
                                 (tok # map NextPageToken (butlast pages))\<rparr>)"
  using assms
proof (induction pages arbitrary: acc tok w)
  case Nil
  then show ?case by simp
next
  case (Cons p ps)
  from Cons.prems(4) obtain r where r: "replies w (length (sent w)) = Inr r" "StatusCode r < 400"
      "Decode_PaginatedResponse lib (Body r) = Inr p"
      and rest: "serves lib (replies w) (Suc (length (sent w))) ps"
    by (auto split: sum.splits)
  from Cons.prems(5) have ok: "NewRequest_error lib ''GET''
       (BaseURL c @ BuildURL lib endpoint (page_params params tok)) = None"
    by simp
  let ?w' = "w\<lparr>sent := sent w @ [page_request lib c endpoint params tok]\<rparr>"
  have get: "Get lib c (BuildURL lib endpoint (page_params params tok))
           (Some (Decode_PaginatedResponse lib)) zero_PaginatedResponse w = ((None, p), ?w')"
    by (rule Get_page [OF ok r])
  show ?case
  proof (cases ps)
    case Nil
    with Cons.prems(3) have "NextPageToken p = []" by simp
    with get Nil show ?thesis
      by (subst GetAllPages_loop.simps) (simp add: page_params_def [symmetric])
  next
    case (Cons q qs)
    with Cons.prems(2) have tokp: "NextPageToken p \<noteq> []" by simp
    have ih: "GetAllPages_loop lib c endpoint params (acc @ Items p) (NextPageToken p) ?w' =
       Some (Inr ((acc @ Items p) @ concat (map Items ps)),
             ?w'\<lparr>sent := sent ?w' @ map (page_request lib c endpoint params)
                                 (NextPageToken p # map NextPageToken (butlast ps))\<rparr>)"
    proof (rule Cons.IH)
      show "ps \<noteq> []" using Cons by simp
      show "\<forall>p \<in> set (butlast ps). NextPageToken p \<noteq> []" using Cons.prems(2) Cons by simp
      show "NextPageToken (last ps) = []" using Cons.prems(3) Cons by simp
      show "serves lib (replies ?w') (length (sent ?w')) ps" using rest by simp
      show "\<forall>t \<in> set (NextPageToken p # map NextPageToken (butlast ps)).
           NewRequest_error lib ''GET'' (BaseURL c @ BuildURL lib endpoint (page_params params t)) = None"
        using Cons.prems(5) Cons by simp
    qed
    from get tokp ih Cons show ?thesis
      by (subst GetAllPages_loop.simps) (simp add: page_params_def [symmetric])
  qed
qed

lemma MakeRequest_status_error:
  assumes "replies w (length (sent w)) = Inr r" and "StatusCode r \<ge> 400"
  shows "\<exists>e. fst (MakeRequest lib c method endpoint body w) = Inl e"
  using assms
  by (auto simp: MakeRequest_def HTTPClient_Do_def Let_def split: sum.splits option.splits)

lemma Post_snd:
  "snd (Post lib c endpoint body dec result w) = snd (MakeRequest lib c ''POST'' endpoint body w)"
  by (auto simp: Post_def split: prod.splits sum.splits option.splits)

lemma Post_sent:
  "sent (snd (Post lib c endpoint body dec result w)) =
     sent w @ (if (\<forall>e. body \<noteq> Some (Inl e))
                  \<and> NewRequest_error lib ''POST'' (BaseURL c @ endpoint) = None
               then [client_request c ''POST'' endpoint body] else [])"
  by (simp only: Post_snd MakeRequest_sent)

lemma Get_status_error:
  assumes "replies w (length (sent w)) = Inr r" and "StatusCode r \<ge> 400"
  shows "\<exists>e. fst (fst (Get lib c endpoint dec result w)) = Some e"
proof -
  from MakeRequest_status_error [OF assms, of lib c "''GET''" endpoint None]
  obtain e w' where "MakeRequest lib c ''GET'' endpoint None w = (Inl e, w')"
    by (metis prod.collapse)
  then show ?thesis by (simp add: Get_def)
qed

lemma Get_decoded:
  assumes "NewRequest_error lib ''GET'' (BaseURL c @ endpoint) = None"
    and "replies w (length (sent w)) = Inr r" and "StatusCode r < 400"
  shows "fst (Get lib c endpoint (Some dec) result w) =
           (case dec (Body r) of Inl e \<Rightarrow> (Some (DecodeError e), result) | Inr v \<Rightarrow> (None, v))"
  using assms by (simp add: Get_def MakeRequest_reply split: sum.splits)

lemma performJobAction_approve_without_id:
  "performJobAction lib c projectSlug jobNumber ''approve'' [] w =
     (Some (Errorf ''approval_id is required for approve action''), w)"
  by (simp add: performJobAction_def)

lemma Index_char:
  "Index s [ch] = (if ch \<in> set s then Some (length (takeWhile (\<lambda>x. x \<noteq> ch) s)) else None)"
  by (induction s) auto

lemma SplitN_colon:
  "SplitN s '':'' 2 =
     (if CHR '':'' \<in> set s
      then [takeWhile (\<lambda>x. x \<noteq> CHR '':'') s, tl (dropWhile (\<lambda>x. x \<noteq> CHR '':'') s)]
      else [s])"
proof -
  have "drop (Suc (length (takeWhile (\<lambda>x. x \<noteq> CHR '':'') s))) s
          = tl (dropWhile (\<lambda>x. x \<noteq> CHR '':'') s)"
    by (simp add: dropWhile_eq_drop drop_Suc tl_drop)
  then show ?thesis
    by (simp add: numeral_2_eq_2 Index_char takeWhile_eq_take [symmetric])
qed

lemma split_at_first:
  assumes "CHR '':'' \<notin> set a"
  shows "takeWhile (\<lambda>x. x \<noteq> CHR '':'') (a @ '':'' @ b) = a"
    and "tl (dropWhile (\<lambda>x. x \<noteq> CHR '':'') (a @ '':'' @ b)) = b"
  using assms by (induction a) auto

section \<open>The API client: pagination and error mapping\<close>

text \<open>
  C1. Let the transport deliver, from the next call on, one successful response per page
  of a non-empty sequence of pages in which every page but the last carries a non-empty
  \<open>next_page_token\<close> and the last carries the empty one. Then \<open>GetAllPages\<close> returns; it has
  issued exactly one GET per page: the first for the caller's parameters as they are (no
  \<open>page-token\<close> is added), each later one with \<open>page-token\<close> set to the token of the
  page before; and its result is the concatenation of the pages' items in the order
  received, duplicates included. Nothing is requested after the page with the empty token.
\<close>

theorem GetAllPages_all_pages:
  assumes "pages \<noteq> []"
    and "\<forall>p \<in> set (butlast pages). NextPageToken p \<noteq> []"
    and "NextPageToken (last pages) = []"
    and "serves lib (replies w) (length (sent w)) pages"
    and "NewRequest_error lib ''GET'' (BaseURL c @ BuildURL lib endpoint params) = None"
    and "\<forall>p \<in> set (butlast pages).
           NewRequest_error lib ''GET''
             (BaseURL c @ BuildURL lib endpoint (params(''page-token'' \<mapsto> NextPageToken p))) = None"
  shows "GetAllPages lib c endpoint params w =
     Some (Inr (concat (map Items pages)),
           w\<lparr>sent := sent w
                @ client_request c ''GET'' (BuildURL lib endpoint params) None
                # map (\<lambda>p. client_request c ''GET''
                               (BuildURL lib endpoint (params(''page-token'' \<mapsto> NextPageToken p))) None)
                      (butlast pages)\<rparr>)"
proof -
  have urls: "\<forall>t \<in> set ([] # map NextPageToken (butlast pages)).
           NewRequest_error lib ''GET'' (BaseURL c @ BuildURL lib endpoint (page_params params t)) = None"
    using assms(2,5,6) by (auto simp: page_params_def)
  have reqs: "map (page_request lib c endpoint params) ([] # map NextPageToken (butlast pages)) =
      client_request c ''GET'' (BuildURL lib endpoint params) None
      # map (\<lambda>p. client_request c ''GET''
                     (BuildURL lib endpoint (params(''page-token'' \<mapsto> NextPageToken p))) None)
            (butlast pages)"
    using assms(2) by (auto simp: page_request_eq page_params_def)
  show ?thesis
    unfolding GetAllPages_def
    using GetAllPages_loop_pages [OF assms(1-4) urls, of "[]"] reqs by simp
qed

text \<open>
  The scenario of three pages with the tokens \<open>a\<close>, \<open>b\<close> and none: all items of the three
  responses, the repeated \<open>1\<close> included, and three requests.
\<close>

theorem GetAllPages_all_pages_witness:
  "GetAllPages stub_lib test_client ''/context'' Map.empty
     (scripted [Inr \<lparr>StatusCode = 200, Body = ''a12''\<rparr>,
                Inr \<lparr>StatusCode = 200, Body = ''b31''\<rparr>,
                Inr \<lparr>StatusCode = 200, Body = ''.4''\<rparr>]) =
   Some (Inr [''1'', ''2'', ''3'', ''1'', ''4''],
         (scripted [Inr \<lparr>StatusCode = 200, Body = ''a12''\<rparr>,
                    Inr \<lparr>StatusCode = 200, Body = ''b31''\<rparr>,
                    Inr \<lparr>StatusCode = 200, Body = ''.4''\<rparr>])
         \<lparr>sent := [client_request test_client ''GET'' ''/context'' None,
                   client_request test_client ''GET'' ''/context?page-token=a'' None,
                   client_request test_client ''GET'' ''/context?page-token=b'' None]\<rparr>)"
  using GetAllPages_all_pages [of
      "[\<lparr>Items = [''1'', ''2''], NextPageToken = ''a''\<rparr>,
        \<lparr>Items = [''3'', ''1''], NextPageToken = ''b''\<rparr>,
        \<lparr>Items = [''4''], NextPageToken = []\<rparr>]"
      stub_lib
      "scripted [Inr \<lparr>StatusCode = 200, Body = ''a12''\<rparr>,
                 Inr \<lparr>StatusCode = 200, Body = ''b31''\<rparr>,
                 Inr \<lparr>StatusCode = 200, Body = ''.4''\<rparr>]"
      test_client "''/context''" Map.empty]
  by (simp add: stub_lib_def scripted_def toy_page_def BuildURL_def)

text \<open>
  C2. Whenever the transport delivers a response, \<open>MakeRequest\<close> turns a status of 400 or
  more into an error and returns no response: the decoded \<open>APIError\<close> when the body decodes
  as one, otherwise an \<open>APIError\<close> whose message is \<open>HTTP <status>: <body>\<close> and whose code
  is the status. A response with a status below 400 is returned as it is, with no error.
\<close>

theorem MakeRequest_status:
  assumes "\<And>e. body \<noteq> Some (Inl e)"
    and "NewRequest_error lib method (BaseURL c @ endpoint) = None"
    and "replies w (length (sent w)) = Inr resp"
  shows "fst (MakeRequest lib c method endpoint body w) =
     (if StatusCode resp \<ge> 400 then
        (case Unmarshal_APIError lib (Body resp) of
           Inr apiErr \<Rightarrow> Inl (APIErr apiErr)
         | Inl _ \<Rightarrow> Inl (APIErr \<lparr>Message = ''HTTP '' @ itoa (StatusCode resp) @ '': '' @ Body resp,
                                  Code = StatusCode resp\<rparr>))
      else Inr resp)"
  using assms(3) by (simp add: MakeRequest_reply [OF assms(1,2)])

theorem MakeRequest_status_witness:
  "fst (MakeRequest stub_lib test_client ''GET'' ''/context/c1'' None
          (scripted [Inr \<lparr>StatusCode = 502, Body = ''<html>Bad Gateway</html>''\<rparr>])) =
     Inl (APIErr \<lparr>Message = ''HTTP 502: <html>Bad Gateway</html>'', Code = 502\<rparr>)
   \<and> fst (MakeRequest stub_lib test_client ''GET'' ''/context/c1'' None
          (scripted [Inr \<lparr>StatusCode = 404, Body = ''!Context not found''\<rparr>])) =
     Inl (APIErr \<lparr>Message = ''Context not found'', Code = 0\<rparr>)
   \<and> fst (MakeRequest stub_lib test_client ''GET'' ''/context/c1'' None
          (scripted [Inr \<lparr>StatusCode = 399, Body = ''ok''\<rparr>])) =
     Inr \<lparr>StatusCode = 399, Body = ''ok''\<rparr>"
  using MakeRequest_status [of None stub_lib "''GET''" test_client "''/context/c1''"
          "scripted [Inr \<lparr>StatusCode = 502, Body = ''<html>Bad Gateway</html>''\<rparr>]"
          "\<lparr>StatusCode = 502, Body = ''<html>Bad Gateway</html>''\<rparr>"]
        MakeRequest_status [of None stub_lib "''GET''" test_client "''/context/c1''"
          "scripted [Inr \<lparr>StatusCode = 404, Body = ''!Context not found''\<rparr>]"
          "\<lparr>StatusCode = 404, Body = ''!Context not found''\<rparr>"]
        MakeRequest_status [of None stub_lib "''GET''" test_client "''/context/c1''"
          "scripted [Inr \<lparr>StatusCode = 399, Body = ''ok''\<rparr>]"
          "\<lparr>StatusCode = 399, Body = ''ok''\<rparr>"]
  by (simp add: stub_lib_def scripted_def itoa_def digits.simps)

section \<open>Read and the remote 404\<close>

text \<open>
  C3. The claim that every resource's Read drops the resource from tracked state,
  without an error, when the API answers 404 does not hold of the code. Whenever the
  answer to the read request is a 404 response, Context, Pipeline, EnvironmentVariable
  and Job Read each leave the tracked state as it was and end with an error diagnostic:
  \<open>MakeRequest\<close> has already turned the 404 into an error, so Job Read's own test for
  404 is never reached. RunnerToken Read, which calls the HTTP client itself, does remove
  the resource and reports no error.
\<close>

theorem Read_not_found:
  assumes "replies w (length (sent w)) = Inr r" and "StatusCode r = 404"
  shows "State (fst (ContextResource_Read lib c (d1, ctx) resp1 w)) = State resp1
     \<and> HasError (Diagnostics (fst (ContextResource_Read lib c (d1, ctx) resp1 w)))
     \<and> State (fst (PipelineResource_Read lib c (d2, pl) resp2 w)) = State resp2
     \<and> HasError (Diagnostics (fst (PipelineResource_Read lib c (d2, pl) resp2 w)))
     \<and> State (fst (EnvironmentVariableResource_Read lib c (d3, ev) resp3 w)) = State resp3
     \<and> HasError (Diagnostics (fst (EnvironmentVariableResource_Read lib c (d3, ev) resp3 w)))
     \<and> State (fst (JobResource_Read lib c (d4, job) resp4 w)) = State resp4
     \<and> HasError (Diagnostics (fst (JobResource_Read lib c (d4, job) resp4 w)))
     \<and> (\<not> HasError (Diagnostics resp5) \<and> \<not> HasError d5
          \<and> NewRequest_error lib ''GET''
               (BaseURL c @ ''/runner/token/'' @ ValueString (RunnerTokenResourceModel_ID rt)) = None \<longrightarrow>
          State (fst (RunnerTokenResource_Read lib c (d5, rt) resp5 w)) = None
          \<and> \<not> HasError (Diagnostics (fst (RunnerTokenResource_Read lib c (d5, rt) resp5 w))))"
proof -
  have r400: "StatusCode r \<ge> 400" using assms(2) by simp
  have ctx: "State (fst (ContextResource_Read lib c (d1, ctx) resp1 w)) = State resp1
     \<and> HasError (Diagnostics (fst (ContextResource_Read lib c (d1, ctx) resp1 w)))"
  proof -
    let ?ep = "''/context/'' @ ValueString (ContextResourceModel_ID ctx)"
    obtain e v w' where "Get lib c ?ep (Some (Decode_Context lib)) zero_Context w = ((Some e, v), w')"
      using Get_status_error [OF assms(1) r400, of lib c ?ep "Some (Decode_Context lib)" zero_Context]
      by (metis prod.collapse)
    then show ?thesis
      by (simp add: ContextResource_Read_def Let_def AppendDiags_facts AddError_facts)
  qed
  have pl: "State (fst (PipelineResource_Read lib c (d2, pl) resp2 w)) = State resp2
     \<and> HasError (Diagnostics (fst (PipelineResource_Read lib c (d2, pl) resp2 w)))"
  proof -
    let ?ep = "''/pipeline/'' @ ValueString (PipelineResourceModel_ID pl)"
    obtain e v w' where "Get lib c ?ep (Some (Decode_Pipeline lib)) zero_Pipeline w = ((Some e, v), w')"
      using Get_status_error [OF assms(1) r400, of lib c ?ep "Some (Decode_Pipeline lib)" zero_Pipeline]
      by (metis prod.collapse)
    then show ?thesis
      by (simp add: PipelineResource_Read_def Let_def AppendDiags_facts AddError_facts)
  qed
  have ev: "State (fst (EnvironmentVariableResource_Read lib c (d3, ev) resp3 w)) = State resp3
     \<and> HasError (Diagnostics (fst (EnvironmentVariableResource_Read lib c (d3, ev) resp3 w)))"
  proof -
    let ?ep = "''/context/'' @ ValueString (EnvironmentVariableResourceModel_ContextID ev)
                @ ''/environment-variable/'' @ ValueString (EnvironmentVariableResourceModel_Name ev)"
    obtain e v w' where
      "Get lib c ?ep (Some (Decode_EnvironmentVariable lib)) zero_EnvironmentVariable w = ((Some e, v), w')"
      using Get_status_error [OF assms(1) r400, of lib c ?ep "Some (Decode_EnvironmentVariable lib)"
              zero_EnvironmentVariable]
      by (metis prod.collapse)
    then show ?thesis
      by (simp add: EnvironmentVariableResource_Read_def Let_def AppendDiags_facts AddError_facts)
  qed
  have job: "State (fst (JobResource_Read lib c (d4, job) resp4 w)) = State resp4
     \<and> HasError (Diagnostics (fst (JobResource_Read lib c (d4, job) resp4 w)))"
  proof -
    let ?ep = "''/v2/project/'' @ ValueString (JobResourceModel_ProjectSlug job)
               @ ''/job/'' @ itoa (ValueInt64 (JobResourceModel_JobNumber job))"
    obtain e w' where "MakeRequest lib c ''GET'' ?ep None w = (Inl e, w')"
      using MakeRequest_status_error [OF assms(1) r400, of lib c "''GET''" ?ep None]
      by (metis prod.collapse)
    then show ?thesis
      by (simp add: JobResource_Read_def Let_def AppendDiags_facts AddError_facts)
  qed
  have rt: "\<not> HasError (Diagnostics resp5) \<and> \<not> HasError d5
          \<and> NewRequest_error lib ''GET''
               (BaseURL c @ ''/runner/token/'' @ ValueString (RunnerTokenResourceModel_ID rt)) = None \<longrightarrow>
          State (fst (RunnerTokenResource_Read lib c (d5, rt) resp5 w)) = None
          \<and> \<not> HasError (Diagnostics (fst (RunnerTokenResource_Read lib c (d5, rt) resp5 w)))"
    using assms
    by (simp add: RunnerTokenResource_Read_def Let_def AppendDiags_facts HTTPClient_Do_def
          RemoveResource_def)
  show ?thesis using ctx pl ev job rt by blast
qed

text \<open>
  The tracked context \<open>c1\<close> and the tracked job 7, each read against a server that
  answers 404, stay tracked and the read fails; the runner token \<open>t1\<close> is dropped.
\<close>

theorem Read_not_found_witness:
  "State (fst (ContextResource_Read stub_lib test_client ([], context_c1) (tracking context_c1)
                 (scripted [not_found]))) = Some context_c1
   \<and> HasError (Diagnostics (fst (ContextResource_Read stub_lib test_client ([], context_c1)
                 (tracking context_c1) (scripted [not_found]))))
   \<and> State (fst (JobResource_Read stub_lib test_client ([], job_approve) (tracking job_approve)
                 (scripted [not_found]))) = Some job_approve
   \<and> HasError (Diagnostics (fst (JobResource_Read stub_lib test_client ([], job_approve)
                 (tracking job_approve) (scripted [not_found]))))
   \<and> State (fst (RunnerTokenResource_Read stub_lib test_client ([], runner_token_t1)
                 (tracking runner_token_t1) (scripted [not_found]))) = None"
  using Read_not_found [where w = "scripted [not_found]" and r = "\<lparr>StatusCode = 404, Body = ''!Not found''\<rparr>"
          and lib = stub_lib and c = test_client and ?d1.0 = "[]" and ctx = context_c1
          and ?resp1.0 = "tracking context_c1" and ?d4.0 = "[]" and job = job_approve
          and ?resp4.0 = "tracking job_approve" and ?d5.0 = "[]" and rt = runner_token_t1
          and ?resp5.0 = "tracking runner_token_t1"]
  by (simp add: scripted_def not_found_def tracking_def stub_lib_def)

section \<open>Import of composite identifiers\<close>

text \<open>
  C4, as amended. Import splits the identifier at its first colon only. An identifier
  without a colon is rejected by all three resources: an error diagnostic, no attribute
  set. An identifier \<open>a:b\<close> in which \<open>a\<close> has no colon (\<open>b\<close> may have more) makes
  EnvironmentVariable set \<open>context_id = a\<close>, \<open>name = b\<close> and \<open>id\<close>, and CheckoutKey
  set \<open>project_slug = a\<close>, \<open>fingerprint = b\<close> and \<open>id\<close>, with no diagnostic; Job
  sets \<open>project_slug = a\<close>, \<open>job_number\<close> and \<open>id\<close> when \<open>b\<close> is a decimal \<open>int64\<close>, and
  otherwise reports an error and sets nothing.
\<close>

theorem ImportState_first_colon:
  "(CHR '':'' \<notin> set ID \<longrightarrow>
      Import_State (EnvironmentVariableResource_ImportState lib ID resp) = Import_State resp
      \<and> HasError (Import_Diagnostics (EnvironmentVariableResource_ImportState lib ID resp))
      \<and> Import_State (CheckoutKeyResource_ImportState lib ID resp) = Import_State resp
      \<and> HasError (Import_Diagnostics (CheckoutKeyResource_ImportState lib ID resp))
      \<and> Import_State (JobResource_ImportState lib ID resp) = Import_State resp
      \<and> HasError (Import_Diagnostics (JobResource_ImportState lib ID resp)))
   \<and> (\<forall>a b. ID = a @ '':'' @ b \<and> CHR '':'' \<notin> set a \<longrightarrow>
        EnvironmentVariableResource_ImportState lib ID resp =
          resp\<lparr>Import_State := (Import_State resp)(''context_id'' \<mapsto> StringAttr a,
                    ''name'' \<mapsto> StringAttr b, ''id'' \<mapsto> StringAttr ID)\<rparr>
        \<and> CheckoutKeyResource_ImportState lib ID resp =
          resp\<lparr>Import_State := (Import_State resp)(''project_slug'' \<mapsto> StringAttr a,
                    ''fingerprint'' \<mapsto> StringAttr b, ''id'' \<mapsto> StringAttr ID)\<rparr>
        \<and> (case ParseInt b of
             Some n \<Rightarrow>
               JobResource_ImportState lib ID resp =
                 resp\<lparr>Import_State := (Import_State resp)(''project_slug'' \<mapsto> StringAttr a,
                    ''job_number'' \<mapsto> Int64Attr n, ''id'' \<mapsto> StringAttr ID)\<rparr>
           | None \<Rightarrow>
               Import_State (JobResource_ImportState lib ID resp) = Import_State resp
               \<and> HasError (Import_Diagnostics (JobResource_ImportState lib ID resp))))"
proof (intro conjI impI allI)
  fix a b
  assume h: "ID = a @ '':'' @ b \<and> CHR '':'' \<notin> set a"
  then have sp: "SplitN ID '':'' 2 = [a, b]"
    using split_at_first [of a b] by (simp add: SplitN_colon)
  show "EnvironmentVariableResource_ImportState lib ID resp =
          resp\<lparr>Import_State := (Import_State resp)(''context_id'' \<mapsto> StringAttr a,
                    ''name'' \<mapsto> StringAttr b, ''id'' \<mapsto> StringAttr ID)\<rparr>"
    by (simp add: EnvironmentVariableResource_ImportState_def sp SetAttribute_def)
  show "CheckoutKeyResource_ImportState lib ID resp =
          resp\<lparr>Import_State := (Import_State resp)(''project_slug'' \<mapsto> StringAttr a,
                    ''fingerprint'' \<mapsto> StringAttr b, ''id'' \<mapsto> StringAttr ID)\<rparr>"
    by (simp add: CheckoutKeyResource_ImportState_def sp SetAttribute_def)
  show "case ParseInt b of
             Some n \<Rightarrow>
               JobResource_ImportState lib ID resp =
                 resp\<lparr>Import_State := (Import_State resp)(''project_slug'' \<mapsto> StringAttr a,
                    ''job_number'' \<mapsto> Int64Attr n, ''id'' \<mapsto> StringAttr ID)\<rparr>
           | None \<Rightarrow>
               Import_State (JobResource_ImportState lib ID resp) = Import_State resp
               \<and> HasError (Import_Diagnostics (JobResource_ImportState lib ID resp))"
    by (simp add: JobResource_ImportState_def sp SetAttribute_def Import_AddError_def HasError_Append
             split: option.splits)
qed (simp_all add: EnvironmentVariableResource_ImportState_def CheckoutKeyResource_ImportState_def
       JobResource_ImportState_def SplitN_colon Import_AddError_def HasError_Append)

theorem ImportState_first_colon_witness:
  "EnvironmentVariableResource_ImportState stub_lib ''c1:API_KEY''
     \<lparr>Import_State = Map.empty, Import_Diagnostics = []\<rparr> =
   \<lparr>Import_State = [''context_id'' \<mapsto> StringAttr ''c1'', ''name'' \<mapsto> StringAttr ''API_KEY'',
                     ''id'' \<mapsto> StringAttr ''c1:API_KEY''],
    Import_Diagnostics = []\<rparr>
   \<and> JobResource_ImportState stub_lib ''gh/org/repo:123''
     \<lparr>Import_State = Map.empty, Import_Diagnostics = []\<rparr> =
   \<lparr>Import_State = [''project_slug'' \<mapsto> StringAttr ''gh/org/repo'', ''job_number'' \<mapsto> Int64Attr 123,
                     ''id'' \<mapsto> StringAttr ''gh/org/repo:123''],
    Import_Diagnostics = []\<rparr>
   \<and> HasError (Import_Diagnostics (CheckoutKeyResource_ImportState stub_lib ''gh/org/repo''
        \<lparr>Import_State = Map.empty, Import_Diagnostics = []\<rparr>))
   \<and> Import_State (CheckoutKeyResource_ImportState stub_lib ''gh/org/repo''
        \<lparr>Import_State = Map.empty, Import_Diagnostics = []\<rparr>) = Map.empty"
  using ImportState_first_colon [of "''c1:API_KEY''" stub_lib
          "\<lparr>Import_State = Map.empty, Import_Diagnostics = []\<rparr>", THEN conjunct2, rule_format,
          of "''c1''" "''API_KEY''"]
        ImportState_first_colon [of "''gh/org/repo:123''" stub_lib
          "\<lparr>Import_State = Map.empty, Import_Diagnostics = []\<rparr>", THEN conjunct2, rule_format,
          of "''gh/org/repo''" "''123''"]
        ImportState_first_colon [of "''gh/org/repo''" stub_lib
          "\<lparr>Import_State = Map.empty, Import_Diagnostics = []\<rparr>", THEN conjunct1]
  by (simp add: ParseInt_def is_digit_def)

text \<open>
  The claim as stated fails: an identifier of three colon-delimited segments is accepted,
  the second and third segment together becoming the name.
\<close>

theorem ImportState_three_segments_accepted:
  "\<not> HasError (Import_Diagnostics (EnvironmentVariableResource_ImportState stub_lib ''c1:NAME:extra''
        \<lparr>Import_State = Map.empty, Import_Diagnostics = []\<rparr>))
   \<and> Import_State (EnvironmentVariableResource_ImportState stub_lib ''c1:NAME:extra''
        \<lparr>Import_State = Map.empty, Import_Diagnostics = []\<rparr>) ''name'' = Some (StringAttr ''NAME:extra'')"
  by (simp add: EnvironmentVariableResource_ImportState_def numeral_2_eq_2 SetAttribute_def)

section \<open>Validation before the network\<close>

text \<open>
  C5, as amended. With \<open>action = "approve"\<close> and an absent or empty \<open>approval_id\<close>:
  Job Update reports an error without any HTTP call (the error is the missing
  \<open>approval_id\<close> one when the plan itself was read without error) and leaves the state
  as it was. Job Create first issues the GET of the job's details, and nothing else: it
  always ends with an error diagnostic and sets no state, no POST is issued, and when the
  GET answers 200 with a body that decodes, the error is the missing \<open>approval_id\<close> one.
\<close>

theorem Job_approve_without_approval_id:
  assumes "ValueString (JobResourceModel_Action data) = ''approve''"
    and "ValueString (JobResourceModel_ApprovalID data) = []"
  shows "snd (JobResource_Update lib c (diags, data) state resp0 w) = w
     \<and> State (fst (JobResource_Update lib c (diags, data) state resp0 w)) = State resp0
     \<and> HasError (Diagnostics (fst (JobResource_Update lib c (diags, data) state resp0 w)))
     \<and> (\<not> HasError (Diagnostics resp0) \<and> \<not> HasError diags \<longrightarrow>
          ErrorDiagnostic ''Failed to perform job action'' ''approval_id is required for approve action''
          \<in> set (Diagnostics (fst (JobResource_Update lib c (diags, data) state resp0 w))))
     \<and> sent (snd (JobResource_Create lib c (diags, data) resp0 w)) =
          sent w @ (if \<not> HasError (Diagnostics resp0) \<and> \<not> HasError diags
                       \<and> NewRequest_error lib ''GET''
                            (BaseURL c @ ''/v2/project/'' @ ValueString (JobResourceModel_ProjectSlug data)
                             @ ''/job/'' @ itoa (ValueInt64 (JobResourceModel_JobNumber data))) = None
                    then [client_request c ''GET''
                            (''/v2/project/'' @ ValueString (JobResourceModel_ProjectSlug data)
                             @ ''/job/'' @ itoa (ValueInt64 (JobResourceModel_JobNumber data))) None]
                    else [])
     \<and> State (fst (JobResource_Create lib c (diags, data) resp0 w)) = State resp0
     \<and> HasError (Diagnostics (fst (JobResource_Create lib c (diags, data) resp0 w)))
     \<and> (\<forall>r job. \<not> HasError (Diagnostics resp0) \<and> \<not> HasError diags
           \<and> NewRequest_error lib ''GET''
                (BaseURL c @ ''/v2/project/'' @ ValueString (JobResourceModel_ProjectSlug data)
                 @ ''/job/'' @ itoa (ValueInt64 (JobResourceModel_JobNumber data))) = None
           \<and> replies w (length (sent w)) = Inr r \<and> StatusCode r = 200
           \<and> Decode_JobAPI lib (Body r) = Inr job \<longrightarrow>
           ErrorDiagnostic ''Failed to perform job action'' ''approval_id is required for approve action''
           \<in> set (Diagnostics (fst (JobResource_Create lib c (diags, data) resp0 w))))"
proof -
  let ?ep = "''/v2/project/'' @ ValueString (JobResourceModel_ProjectSlug data)
               @ ''/job/'' @ itoa (ValueInt64 (JobResourceModel_JobNumber data))"
  have upd: "snd (JobResource_Update lib c (diags, data) state resp0 w) = w
     \<and> State (fst (JobResource_Update lib c (diags, data) state resp0 w)) = State resp0
     \<and> HasError (Diagnostics (fst (JobResource_Update lib c (diags, data) state resp0 w)))
     \<and> (\<not> HasError (Diagnostics resp0) \<and> \<not> HasError diags \<longrightarrow>
          ErrorDiagnostic ''Failed to perform job action'' ''approval_id is required for approve action''
          \<in> set (Diagnostics (fst (JobResource_Update lib c (diags, data) state resp0 w))))"
    using assms
    by (simp add: JobResource_Update_def Let_def performJobAction_approve_without_id
          AppendDiags_facts AddError_facts)
  obtain res w1 where mr: "MakeRequest lib c ''GET'' ?ep None w = (res, w1)"
    by (metis surj_pair)
  have w1: "sent w1 = sent w @ (if NewRequest_error lib ''GET'' (BaseURL c @ ?ep) = None
                                then [client_request c ''GET'' ?ep None] else [])"
    using MakeRequest_sent [of lib c "''GET''" ?ep None w] mr by simp
  have cr: "sent (snd (JobResource_Create lib c (diags, data) resp0 w)) =
          sent w @ (if \<not> HasError (Diagnostics resp0) \<and> \<not> HasError diags
                       \<and> NewRequest_error lib ''GET'' (BaseURL c @ ?ep) = None
                    then [client_request c ''GET'' ?ep None] else [])
     \<and> State (fst (JobResource_Create lib c (diags, data) resp0 w)) = State resp0
     \<and> HasError (Diagnostics (fst (JobResource_Create lib c (diags, data) resp0 w)))"
    using assms mr w1
    by (cases res)
       (simp_all add: JobResource_Create_def Let_def performJobAction_approve_without_id
          AppendDiags_facts AddError_facts split: sum.splits)
  have cr2: "ErrorDiagnostic ''Failed to perform job action'' ''approval_id is required for approve action''
           \<in> set (Diagnostics (fst (JobResource_Create lib c (diags, data) resp0 w)))"
    if "\<not> HasError (Diagnostics resp0)" "\<not> HasError diags"
       "NewRequest_error lib ''GET'' (BaseURL c @ ?ep) = None"
       "replies w (length (sent w)) = Inr r" "StatusCode r = 200"
       "Decode_JobAPI lib (Body r) = Inr job" for r job
    using that assms
    by (simp add: JobResource_Create_def Let_def MakeRequest_reply
          performJobAction_approve_without_id AppendDiags_facts AddError_facts)
  show ?thesis
    using upd cr cr2 by blast
qed

theorem Job_approve_without_approval_id_witness:
  "snd (JobResource_Update stub_lib test_client ([], job_approve) ([], job_approve)
          (tracking job_approve) (scripted [])) = scripted []
   \<and> ErrorDiagnostic ''Failed to perform job action'' ''approval_id is required for approve action''
       \<in> set (Diagnostics (fst (JobResource_Update stub_lib test_client ([], job_approve) ([], job_approve)
                                (tracking job_approve) (scripted []))))
   \<and> State (fst (JobResource_Create stub_lib test_client ([], job_approve) untracked
          (scripted []))) = None
   \<and> HasError (Diagnostics (fst (JobResource_Create stub_lib test_client ([], job_approve) untracked
          (scripted []))))"
  using Job_approve_without_approval_id [of job_approve stub_lib test_client "[]" "([], job_approve)"
          "tracking job_approve" "scripted []"]
        Job_approve_without_approval_id [of job_approve stub_lib test_client "[]" "([], job_approve)"
          untracked "scripted []"]
  by (simp add: job_approve_def tracking_def untracked_def)

text \<open>
  The claim as stated fails for Create: with \<open>action = "approve"\<close> and no \<open>approval_id\<close>,
  the GET of the job's details has been sent by the time the validation error is reported.
\<close>

theorem Job_Create_approve_issues_GET:
  "sent (snd (JobResource_Create stub_lib test_client ([], job_approve) untracked
                (scripted [Inr \<lparr>StatusCode = 200, Body = ''on_hold''\<rparr>]))) =
     [client_request test_client ''GET'' ''/v2/project/gh/org/repo/job/7'' None]
   \<and> Diagnostics (fst (JobResource_Create stub_lib test_client ([], job_approve) untracked
                (scripted [Inr \<lparr>StatusCode = 200, Body = ''on_hold''\<rparr>]))) =
     [ErrorDiagnostic ''Failed to perform job action'' ''approval_id is required for approve action'']"
  by (simp add: JobResource_Create_def MakeRequest_reply stub_lib_def test_client_def scripted_def
        job_approve_def untracked_def itoa_def digits.simps toy_field_def
        performJobAction_approve_without_id AddError_def AppendDiags_def Append.simps(2)
        client_request_def)

text \<open>
  C6. Pipeline Create with \<open>branch\<close> and \<open>tag\<close> both null, or both non-null, issues no
  HTTP request, sets no state and ends with an error diagnostic: the attribute error on
  \<open>branch\<close> (missing, or conflicting) whenever the plan itself was read without error.
  Whenever Create issues a request at all, exactly one of \<open>branch\<close> and \<open>tag\<close> is
  non-null, and the request is the single POST that triggers the pipeline.
\<close>

theorem Pipeline_Create_branch_xor_tag:
  "(IsNull (PipelineResourceModel_Branch data) = IsNull (PipelineResourceModel_Tag data) \<longrightarrow>
      snd (PipelineResource_Create lib c (diags, data) resp0 w) = w
      \<and> State (fst (PipelineResource_Create lib c (diags, data) resp0 w)) = State resp0
      \<and> HasError (Diagnostics (fst (PipelineResource_Create lib c (diags, data) resp0 w)))
      \<and> (\<not> HasError (Diagnostics resp0) \<and> \<not> HasError diags \<longrightarrow>
           (if IsNull (PipelineResourceModel_Branch data)
            then AttributeErrorDiagnostic ''branch'' ''Missing Required Attribute''
                   ''Either 'branch' or 'tag' must be specified.''
            else AttributeErrorDiagnostic ''branch'' ''Conflicting Attributes''
                   ''Cannot specify both 'branch' and 'tag'.'')
           \<in> set (Diagnostics (fst (PipelineResource_Create lib c (diags, data) resp0 w)))))
   \<and> (sent (snd (PipelineResource_Create lib c (diags, data) resp0 w)) \<noteq> sent w \<longrightarrow>
        IsNull (PipelineResourceModel_Branch data) \<noteq> IsNull (PipelineResourceModel_Tag data)
        \<and> (\<exists>body. sent (snd (PipelineResource_Create lib c (diags, data) resp0 w)) =
              sent w @ [client_request c ''POST''
                          (''/project/''
                           @ EscapeProjectSlug lib (ValueString (PipelineResourceModel_ProjectSlug data))
                           @ ''/pipeline'') body]))"
proof -
  have a: "IsNull (PipelineResourceModel_Branch data) = IsNull (PipelineResourceModel_Tag data) \<Longrightarrow>
      snd (PipelineResource_Create lib c (diags, data) resp0 w) = w
      \<and> State (fst (PipelineResource_Create lib c (diags, data) resp0 w)) = State resp0
      \<and> HasError (Diagnostics (fst (PipelineResource_Create lib c (diags, data) resp0 w)))
      \<and> (\<not> HasError (Diagnostics resp0) \<and> \<not> HasError diags \<longrightarrow>
           (if IsNull (PipelineResourceModel_Branch data)
            then AttributeErrorDiagnostic ''branch'' ''Missing Required Attribute''
                   ''Either 'branch' or 'tag' must be specified.''
            else AttributeErrorDiagnostic ''branch'' ''Conflicting Attributes''
                   ''Cannot specify both 'branch' and 'tag'.'')
           \<in> set (Diagnostics (fst (PipelineResource_Create lib c (diags, data) resp0 w))))"
    by (simp add: PipelineResource_Create_def Let_def AppendDiags_facts AddAttributeError_facts)
  have b: "sent (snd (PipelineResource_Create lib c (diags, data) resp0 w)) \<noteq> sent w \<Longrightarrow>
        IsNull (PipelineResourceModel_Branch data) \<noteq> IsNull (PipelineResourceModel_Tag data)"
  proof
    assume changed: "sent (snd (PipelineResource_Create lib c (diags, data) resp0 w)) \<noteq> sent w"
      and same: "IsNull (PipelineResourceModel_Branch data) = IsNull (PipelineResourceModel_Tag data)"
    from a [OF same] have "snd (PipelineResource_Create lib c (diags, data) resp0 w) = w" by blast
    with changed show False by simp
  qed
  let ?ep = "''/project/'' @ EscapeProjectSlug lib (ValueString (PipelineResourceModel_ProjectSlug data))
                           @ ''/pipeline''"
  have c: "sent (snd (PipelineResource_Create lib c (diags, data) resp0 w)) = sent w
       \<or> (\<exists>body. sent (snd (PipelineResource_Create lib c (diags, data) resp0 w)) =
              sent w @ [client_request c ''POST'' ?ep body])"
  proof -
    let ?params = "if \<not> Map_IsNull (PipelineResourceModel_Parameters data)
                   then Some (snd (Map_ElementsAs (PipelineResourceModel_Parameters data))) else None"
    let ?body = "Some (Inr (Marshal_TriggerPipelineRequest lib
                   \<lparr>TriggerPipelineRequest_Branch =
                           (if \<not> IsNull (PipelineResourceModel_Branch data)
                            then ValueString (PipelineResourceModel_Branch data) else []),
                         TriggerPipelineRequest_Tag =
                           (if \<not> IsNull (PipelineResourceModel_Tag data)
                            then ValueString (PipelineResourceModel_Tag data) else []),
                         TriggerPipelineRequest_Parameters = ?params\<rparr>))"
    obtain err p w' where post:
      "Post lib c ?ep ?body (Some (Decode_Pipeline lib)) zero_Pipeline w = ((err, p), w')"
      by (metis surj_pair)
    have w': "sent w' = sent w \<or> sent w' = sent w @ [client_request c ''POST'' ?ep ?body]"
      using Post_sent [of lib c ?ep ?body "Some (Decode_Pipeline lib)" zero_Pipeline w] post
      by (simp split: if_splits)
    have "sent (snd (PipelineResource_Create lib c (diags, data) resp0 w)) = sent w
       \<or> sent (snd (PipelineResource_Create lib c (diags, data) resp0 w)) = sent w'"
      using post
      by (cases err) (simp_all add: PipelineResource_Create_def Let_def AppendDiags_facts split: if_splits)
    with w' show ?thesis by auto
  qed
  show ?thesis using a b c by blast
qed

theorem Pipeline_Create_branch_xor_tag_witness:
  "snd (PipelineResource_Create stub_lib test_client
          ([], pipeline_p1\<lparr>PipelineResourceModel_Tag := Known ''v1''\<rparr>) untracked (scripted [])) = scripted []
   \<and> AttributeErrorDiagnostic ''branch'' ''Conflicting Attributes''
         ''Cannot specify both 'branch' and 'tag'.''
       \<in> set (Diagnostics (fst (PipelineResource_Create stub_lib test_client
                  ([], pipeline_p1\<lparr>PipelineResourceModel_Tag := Known ''v1''\<rparr>) untracked (scripted []))))
   \<and> (\<exists>body. sent (snd (PipelineResource_Create stub_lib test_client ([], pipeline_p1) untracked
                           (scripted [Inr \<lparr>StatusCode = 201, Body = ''created''\<rparr>]))) =
          [client_request test_client ''POST'' ''/project/gh/org/repo/pipeline'' body])"
proof -
  have sent: "sent (snd (PipelineResource_Create stub_lib test_client ([], pipeline_p1) untracked
                           (scripted [Inr \<lparr>StatusCode = 201, Body = ''created''\<rparr>])))
              \<noteq> sent (scripted [Inr \<lparr>StatusCode = 201, Body = ''created''\<rparr>])"
    by (simp add: PipelineResource_Create_def Post_def MakeRequest_reply stub_lib_def scripted_def
          pipeline_p1_def untracked_def AppendDiags_def toy_field_def State_Set_def
          EscapeProjectSlug_def Let_def split: prod.splits)
  show ?thesis
    using Pipeline_Create_branch_xor_tag [of "pipeline_p1\<lparr>PipelineResourceModel_Tag := Known ''v1''\<rparr>"
            stub_lib test_client "[]" untracked "scripted []"]
          Pipeline_Create_branch_xor_tag [of pipeline_p1 stub_lib test_client "[]" untracked
            "scripted [Inr \<lparr>StatusCode = 201, Body = ''created''\<rparr>]", THEN conjunct2, rule_format,
            OF sent]
    by (simp add: pipeline_p1_def untracked_def scripted_def stub_lib_def EscapeProjectSlug_def)
qed

section \<open>Frame of EnvironmentVariable Read\<close>

text \<open>
  C7. Whatever the API answers, after EnvironmentVariable Read the tracked state still
  holds the prior \<open>value\<close>, \<open>context_id\<close> and \<open>id\<close>. When the read succeeds, the new
  state is the prior one with \<open>name\<close> alone replaced, by the \<open>variable\<close> field of the
  response. Hence a Read that follows a successful Create finds, and keeps, the value
  that Create was given.
\<close>

theorem EnvironmentVariable_Read_keeps_value:
  "(State resp0 = Some data \<longrightarrow>
      (\<exists>d. State (fst (EnvironmentVariableResource_Read lib c (diags, data) resp0 w)) = Some d
           \<and> EnvironmentVariableResourceModel_Value d = EnvironmentVariableResourceModel_Value data
           \<and> EnvironmentVariableResourceModel_ContextID d = EnvironmentVariableResourceModel_ContextID data
           \<and> EnvironmentVariableResourceModel_ID d = EnvironmentVariableResourceModel_ID data))
   \<and> (\<forall>r envVar.
         \<not> HasError (Diagnostics resp0) \<and> \<not> HasError diags
         \<and> NewRequest_error lib ''GET''
              (BaseURL c @ ''/context/'' @ ValueString (EnvironmentVariableResourceModel_ContextID data)
               @ ''/environment-variable/'' @ ValueString (EnvironmentVariableResourceModel_Name data)) = None
         \<and> replies w (length (sent w)) = Inr r \<and> StatusCode r < 400
         \<and> Decode_EnvironmentVariable lib (Body r) = Inr envVar \<longrightarrow>
         State (fst (EnvironmentVariableResource_Read lib c (diags, data) resp0 w)) =
           Some (data\<lparr>EnvironmentVariableResourceModel_Name :=
                         Known (EnvironmentVariable_Variable envVar)\<rparr>))
   \<and> (\<forall>created. State (fst (EnvironmentVariableResource_Create lib c (pdiags, plan) untracked w)) = Some created \<longrightarrow>
         EnvironmentVariableResourceModel_Value created = EnvironmentVariableResourceModel_Value plan
         \<and> (\<exists>d. State (fst (EnvironmentVariableResource_Read lib c (diags, created) (tracking created)
                              (snd (EnvironmentVariableResource_Create lib c (pdiags, plan) untracked w)))) = Some d
                \<and> EnvironmentVariableResourceModel_Value d = EnvironmentVariableResourceModel_Value plan))"
proof -
  have keep: "\<exists>d. State (fst (EnvironmentVariableResource_Read lib c (diags, data) resp0 w)) = Some d
           \<and> EnvironmentVariableResourceModel_Value d = EnvironmentVariableResourceModel_Value data
           \<and> EnvironmentVariableResourceModel_ContextID d = EnvironmentVariableResourceModel_ContextID data
           \<and> EnvironmentVariableResourceModel_ID d = EnvironmentVariableResourceModel_ID data"
    if "State resp0 = Some data" for resp0 data w
  proof -
    let ?ep = "''/context/'' @ ValueString (EnvironmentVariableResourceModel_ContextID data)
                @ ''/environment-variable/'' @ ValueString (EnvironmentVariableResourceModel_Name data)"
    obtain err envVar w' where get:
      "Get lib c ?ep (Some (Decode_EnvironmentVariable lib)) zero_EnvironmentVariable w = ((err, envVar), w')"
      by (metis surj_pair)
    show ?thesis
      using that get
      by (cases err)
         (simp_all add: EnvironmentVariableResource_Read_def Let_def AppendDiags_facts AddError_facts
            State_Set_facts)
  qed
  have name: "State (fst (EnvironmentVariableResource_Read lib c (diags, data) resp0 w)) =
           Some (data\<lparr>EnvironmentVariableResourceModel_Name :=
                         Known (EnvironmentVariable_Variable envVar)\<rparr>)"
    if "\<not> HasError (Diagnostics resp0)" "\<not> HasError diags"
      "NewRequest_error lib ''GET''
              (BaseURL c @ ''/context/'' @ ValueString (EnvironmentVariableResourceModel_ContextID data)
               @ ''/environment-variable/'' @ ValueString (EnvironmentVariableResourceModel_Name data)) = None"
      "replies w (length (sent w)) = Inr r" "StatusCode r < 400"
      "Decode_EnvironmentVariable lib (Body r) = Inr envVar" for r envVar
  proof -
    let ?ep = "''/context/'' @ ValueString (EnvironmentVariableResourceModel_ContextID data)
                @ ''/environment-variable/'' @ ValueString (EnvironmentVariableResourceModel_Name data)"
    have "fst (Get lib c ?ep (Some (Decode_EnvironmentVariable lib)) zero_EnvironmentVariable w)
            = (None, envVar)"
      using Get_decoded [of lib c ?ep w r "Decode_EnvironmentVariable lib" zero_EnvironmentVariable] that
      by simp
    then obtain w' where
      "Get lib c ?ep (Some (Decode_EnvironmentVariable lib)) zero_EnvironmentVariable w
         = ((None, envVar), w')"
      by (metis prod.collapse)
    then show ?thesis
      using that(1,2)
      by (simp add: EnvironmentVariableResource_Read_def Let_def AppendDiags_facts State_Set_facts)
  qed
  have create: "EnvironmentVariableResourceModel_Value created = EnvironmentVariableResourceModel_Value plan"
    if "State (fst (EnvironmentVariableResource_Create lib c (pdiags, plan) untracked w)) = Some created"
    for created
  proof -
    let ?ep = "''/context/'' @ ValueString (EnvironmentVariableResourceModel_ContextID plan)
                @ ''/environment-variable/'' @ ValueString (EnvironmentVariableResourceModel_Name plan)"
    let ?body = "Some (Inr (Marshal_CreateEnvironmentVariableRequest lib
                   \<lparr>CreateEnvironmentVariableRequest_Name =
                                ValueString (EnvironmentVariableResourceModel_Name plan),
                              CreateEnvironmentVariableRequest_Value =
                                ValueString (EnvironmentVariableResourceModel_Value plan)\<rparr>))"
    obtain err envVar w' where put:
      "Put lib c ?ep ?body (Some (Decode_EnvironmentVariable lib)) zero_EnvironmentVariable w
         = ((err, envVar), w')"
      by (metis surj_pair)
    show ?thesis
      using that put
      by (cases err)
         (auto simp: EnvironmentVariableResource_Create_def Let_def AppendDiags_facts AddError_facts
            State_Set_facts untracked_def split: if_splits)
  qed
  have round: "\<exists>d. State (fst (EnvironmentVariableResource_Read lib c (diags, created) (tracking created)
                              (snd (EnvironmentVariableResource_Create lib c (pdiags, plan) untracked w)))) = Some d
                \<and> EnvironmentVariableResourceModel_Value d = EnvironmentVariableResourceModel_Value plan"
    if "State (fst (EnvironmentVariableResource_Create lib c (pdiags, plan) untracked w)) = Some created"
    for created
  proof -
    have "State (tracking created) = Some created" by (simp add: tracking_def)
    from keep [OF this] create [OF that] show ?thesis by auto
  qed
  show ?thesis
  proof (intro conjI impI allI)
    show "\<exists>d. State (fst (EnvironmentVariableResource_Read lib c (diags, data) resp0 w)) = Some d
           \<and> EnvironmentVariableResourceModel_Value d = EnvironmentVariableResourceModel_Value data
           \<and> EnvironmentVariableResourceModel_ContextID d = EnvironmentVariableResourceModel_ContextID data
           \<and> EnvironmentVariableResourceModel_ID d = EnvironmentVariableResourceModel_ID data"
      if "State resp0 = Some data"
      by (rule keep [OF that])
  qed (use name create round in blast)+
qed

text \<open>
  Creating \<open>API_KEY = s3cret\<close> in context \<open>c1\<close> and reading it back, against a server
  whose answers never carry the value: the state after the read still holds \<open>s3cret\<close>.
\<close>

theorem EnvironmentVariable_Read_keeps_value_witness:
  "State (fst (EnvironmentVariableResource_Create stub_lib test_client ([], envvar_secret) untracked
                 (scripted [Inr \<lparr>StatusCode = 200, Body = ''API_KEY''\<rparr>,
                            Inr \<lparr>StatusCode = 200, Body = ''API_KEY''\<rparr>]))) =
     Some (envvar_secret\<lparr>EnvironmentVariableResourceModel_ID := Known ''c1:API_KEY''\<rparr>)
   \<and> (\<exists>d. State (fst (EnvironmentVariableResource_Read stub_lib test_client
                        ([], envvar_secret\<lparr>EnvironmentVariableResourceModel_ID := Known ''c1:API_KEY''\<rparr>)
                        (tracking (envvar_secret\<lparr>EnvironmentVariableResourceModel_ID := Known ''c1:API_KEY''\<rparr>))
                        (snd (EnvironmentVariableResource_Create stub_lib test_client ([], envvar_secret)
                                untracked
                                (scripted [Inr \<lparr>StatusCode = 200, Body = ''API_KEY''\<rparr>,
                                           Inr \<lparr>StatusCode = 200, Body = ''API_KEY''\<rparr>]))))) = Some d
          \<and> EnvironmentVariableResourceModel_Value d = Known ''s3cret'')"
proof -
  have created: "State (fst (EnvironmentVariableResource_Create stub_lib test_client ([], envvar_secret)
                 untracked
                 (scripted [Inr \<lparr>StatusCode = 200, Body = ''API_KEY''\<rparr>,
                            Inr \<lparr>StatusCode = 200, Body = ''API_KEY''\<rparr>]))) =
     Some (envvar_secret\<lparr>EnvironmentVariableResourceModel_ID := Known ''c1:API_KEY''\<rparr>)"
    by (simp add: EnvironmentVariableResource_Create_def Put_def MakeRequest_reply stub_lib_def
          scripted_def envvar_secret_def untracked_def AppendDiags_def toy_field_def State_Set_def)
  show ?thesis
    using created
      EnvironmentVariable_Read_keeps_value [of untracked envvar_secret stub_lib test_client "[]"
        "scripted [Inr \<lparr>StatusCode = 200, Body = ''API_KEY''\<rparr>,
                   Inr \<lparr>StatusCode = 200, Body = ''API_KEY''\<rparr>]" "[]" envvar_secret,
        THEN conjunct2, THEN conjunct2, rule_format, OF created]
    by (simp add: envvar_secret_def)
qed

section \<open>Update of immutable resources, and Delete\<close>

text \<open>
  C8. Update of Context, CheckoutKey, RunnerToken and Pipeline issues no HTTP request,
  leaves the tracked state as it was and ends with an error diagnostic, whatever the plan
  and the remote side. For CheckoutKey, RunnerToken and Pipeline the diagnostic that
  explains that a change needs a new resource is always among the diagnostics; for
  Context, which reads the plan first, it is whenever that reading reported no error.
\<close>

theorem Update_immutable:
  "snd (ContextResource_Update lib c plan1 resp1 w) = w
   \<and> State (fst (ContextResource_Update lib c plan1 resp1 w)) = State resp1
   \<and> HasError (Diagnostics (fst (ContextResource_Update lib c plan1 resp1 w)))
   \<and> (\<not> HasError (Diagnostics resp1) \<and> \<not> HasError (fst plan1) \<longrightarrow>
        ErrorDiagnostic ''Update Not Supported''
          ''CircleCI contexts cannot be updated. Changes to name or owner require destroying and recreating the context.''
        \<in> set (Diagnostics (fst (ContextResource_Update lib c plan1 resp1 w))))
   \<and> snd (CheckoutKeyResource_Update lib c plan2 resp2 w) = w
   \<and> State (fst (CheckoutKeyResource_Update lib c plan2 resp2 w)) = State resp2
   \<and> HasError (Diagnostics (fst (CheckoutKeyResource_Update lib c plan2 resp2 w)))
   \<and> ErrorDiagnostic ''Update Not Supported''
        ''CircleCI checkout keys cannot be updated. Changes require destroying and recreating the key.''
      \<in> set (Diagnostics (fst (CheckoutKeyResource_Update lib c plan2 resp2 w)))
   \<and> snd (RunnerTokenResource_Update lib c plan3 resp3 w) = w
   \<and> State (fst (RunnerTokenResource_Update lib c plan3 resp3 w)) = State resp3
   \<and> HasError (Diagnostics (fst (RunnerTokenResource_Update lib c plan3 resp3 w)))
   \<and> ErrorDiagnostic ''Runner token cannot be updated''
        ''Runner tokens are immutable. Any changes require creating a new token.''
      \<in> set (Diagnostics (fst (RunnerTokenResource_Update lib c plan3 resp3 w)))
   \<and> snd (PipelineResource_Update lib c plan4 resp4 w) = w
   \<and> State (fst (PipelineResource_Update lib c plan4 resp4 w)) = State resp4
   \<and> HasError (Diagnostics (fst (PipelineResource_Update lib c plan4 resp4 w)))
   \<and> ErrorDiagnostic ''Update Not Supported''
        ''Pipelines cannot be updated once created. To trigger a new pipeline, create a new resource.''
      \<in> set (Diagnostics (fst (PipelineResource_Update lib c plan4 resp4 w)))"
proof -
  have ctx: "snd (ContextResource_Update lib c plan1 resp1 w) = w"
    "State (fst (ContextResource_Update lib c plan1 resp1 w)) = State resp1"
    "HasError (Diagnostics (fst (ContextResource_Update lib c plan1 resp1 w)))"
    by (cases plan1; simp add: ContextResource_Update_def Let_def AddError_facts AppendDiags_facts)+
  have ctx2: "\<not> HasError (Diagnostics resp1) \<and> \<not> HasError (fst plan1) \<longrightarrow>
        ErrorDiagnostic ''Update Not Supported''
          ''CircleCI contexts cannot be updated. Changes to name or owner require destroying and recreating the context.''
        \<in> set (Diagnostics (fst (ContextResource_Update lib c plan1 resp1 w)))"
    by (cases plan1) (simp add: ContextResource_Update_def Let_def AddError_facts AppendDiags_facts)
  show ?thesis
    using ctx ctx2
    by (simp add: CheckoutKeyResource_Update_def RunnerTokenResource_Update_def
          PipelineResource_Update_def AddError_facts)
qed

theorem Update_immutable_witness:
  "ErrorDiagnostic ''Update Not Supported''
     ''CircleCI contexts cannot be updated. Changes to name or owner require destroying and recreating the context.''
   \<in> set (Diagnostics (fst (ContextResource_Update stub_lib test_client
             ([], context_c1\<lparr>ContextResourceModel_Name := Known ''renamed''\<rparr>) (tracking context_c1)
             (scripted []))))
   \<and> State (fst (ContextResource_Update stub_lib test_client
             ([], context_c1\<lparr>ContextResourceModel_Name := Known ''renamed''\<rparr>) (tracking context_c1)
             (scripted []))) = Some context_c1
   \<and> snd (ContextResource_Update stub_lib test_client
             ([], context_c1\<lparr>ContextResourceModel_Name := Known ''renamed''\<rparr>) (tracking context_c1)
             (scripted [])) = scripted []
   \<and> State (fst (CheckoutKeyResource_Update stub_lib test_client
             ([], checkout_key_k1\<lparr>CheckoutKeyResourceModel_Type := Known ''user-key''\<rparr>)
             (tracking checkout_key_k1) (scripted []))) = Some checkout_key_k1"
  using Update_immutable [of stub_lib test_client
          "([], context_c1\<lparr>ContextResourceModel_Name := Known ''renamed''\<rparr>)" "tracking context_c1"
          "scripted []"
          "([], checkout_key_k1\<lparr>CheckoutKeyResourceModel_Type := Known ''user-key''\<rparr>)"
          "tracking checkout_key_k1"]
  by (simp add: tracking_def)

text \<open>
  C9. When the state was read without error, Pipeline Delete issues the cancel POST
  exactly when the tracked \<open>state\<close> attribute is \<open>running\<close> (and the request can be
  built), and issues nothing else: no request deletes the remote pipeline. It never ends
  with an error diagnostic, so the delete completes and the framework drops the resource
  from tracking; a failed cancel call is reported as the warning \<open>Pipeline Cancel Failed\<close>.
\<close>

theorem Pipeline_Delete_cancel:
  assumes "\<not> HasError (Diagnostics resp0)" and "\<not> HasError diags"
  shows "sent (snd (PipelineResource_Delete lib c (diags, data) resp0 w)) =
           sent w @ (if ValueString (PipelineResourceModel_State data) = ''running''
                        \<and> NewRequest_error lib ''POST''
                             (BaseURL c @ ''/pipeline/'' @ ValueString (PipelineResourceModel_ID data)
                              @ ''/cancel'') = None
                     then [client_request c ''POST''
                             (''/pipeline/'' @ ValueString (PipelineResourceModel_ID data) @ ''/cancel'')
                             None]
                     else [])
         \<and> \<not> HasError (Diagnostics (fst (PipelineResource_Delete lib c (diags, data) resp0 w)))
         \<and> State (fst (PipelineResource_Delete lib c (diags, data) resp0 w)) = State resp0
         \<and> (\<forall>e. ValueString (PipelineResourceModel_State data) = ''running''
                 \<and> fst (fst (Post lib c (''/pipeline/'' @ ValueString (PipelineResourceModel_ID data)
                                          @ ''/cancel'') None None () w)) = Some e
               \<longrightarrow> WarningDiagnostic ''Pipeline Cancel Failed''
                     (''Could not cancel running pipeline: '' @ Error e)
                   \<in> set (Diagnostics (fst (PipelineResource_Delete lib c (diags, data) resp0 w))))"
proof -
  let ?ep = "''/pipeline/'' @ ValueString (PipelineResourceModel_ID data) @ ''/cancel''"
  obtain err u w' where post: "Post lib c ?ep None None () w = ((err, u), w')"
    by (metis surj_pair)
  have w': "sent w' = sent w @ (if NewRequest_error lib ''POST'' (BaseURL c @ ?ep) = None
               then [client_request c ''POST'' ?ep None] else [])"
    using Post_sent [of lib c ?ep None None "()" w] post by simp
  show ?thesis
    using assms post w'
    by (cases err) (simp_all add: PipelineResource_Delete_def Let_def AppendDiags_facts AddWarning_facts)
qed

text \<open>
  Deleting the running pipeline \<open>p1\<close> while the server answers the cancel call with 404:
  one POST to the cancel endpoint, a warning, no error.
\<close>

theorem Pipeline_Delete_cancel_witness:
  "sent (snd (PipelineResource_Delete stub_lib test_client ([], pipeline_p1) (tracking pipeline_p1)
                (scripted [not_found]))) =
     [client_request test_client ''POST'' ''/pipeline/p1/cancel'' None]
   \<and> \<not> HasError (Diagnostics (fst (PipelineResource_Delete stub_lib test_client ([], pipeline_p1)
                (tracking pipeline_p1) (scripted [not_found]))))
   \<and> WarningDiagnostic ''Pipeline Cancel Failed''
        ''Could not cancel running pipeline: CircleCI API error: Not found''
      \<in> set (Diagnostics (fst (PipelineResource_Delete stub_lib test_client ([], pipeline_p1)
                (tracking pipeline_p1) (scripted [not_found]))))
   \<and> sent (snd (PipelineResource_Delete stub_lib test_client
                ([], pipeline_p1\<lparr>PipelineResourceModel_State := Known ''success''\<rparr>)
                (tracking pipeline_p1) (scripted [not_found]))) = []"
proof -
  have failed: "fst (fst (Post stub_lib test_client ''/pipeline/p1/cancel'' None None ()
                       (scripted [not_found]))) = Some (APIErr \<lparr>Message = ''Not found'', Code = 0\<rparr>)"
    by (simp add: Post_def MakeRequest_reply stub_lib_def scripted_def not_found_def)
  show ?thesis
    using failed
      Pipeline_Delete_cancel [of "tracking pipeline_p1" "[]" stub_lib test_client pipeline_p1
        "scripted [not_found]"]
      Pipeline_Delete_cancel [of "tracking pipeline_p1" "[]" stub_lib test_client
        "pipeline_p1\<lparr>PipelineResourceModel_State := Known ''success''\<rparr>" "scripted [not_found]"]
    by (simp add: tracking_def pipeline_p1_def stub_lib_def scripted_def APIError_Error_def)
qed

text \<open>
  C10. When the state was read without error and the DELETE request gets a response,
  RunnerToken Delete ends with an error diagnostic exactly when the status is neither 200
  nor 404; it has sent that one DELETE and left the response's state alone. So deleting a
  token that is already gone (404) succeeds like the first delete (200), and every other
  status is an error.
\<close>

theorem RunnerToken_Delete_status:
  assumes "\<not> HasError (Diagnostics resp0)" and "\<not> HasError diags"
    and "NewRequest_error lib ''DELETE''
           (BaseURL c @ ''/runner/token/'' @ ValueString (RunnerTokenResourceModel_ID data)) = None"
    and "replies w (length (sent w)) = Inr r"
  shows "(HasError (Diagnostics (fst (RunnerTokenResource_Delete lib c (diags, data) resp0 w)))
           \<longleftrightarrow> StatusCode r \<noteq> 200 \<and> StatusCode r \<noteq> 404)
       \<and> sent (snd (RunnerTokenResource_Delete lib c (diags, data) resp0 w)) =
           sent w @ [\<lparr>Method = ''DELETE'',
                      URL = BaseURL c @ ''/runner/token/'' @ ValueString (RunnerTokenResourceModel_ID data),
                      Header = [(''Circle-Token'', ApiToken c)], ReqBody = None\<rparr>]
       \<and> State (fst (RunnerTokenResource_Delete lib c (diags, data) resp0 w)) = State resp0"
  using assms
  by (auto simp: RunnerTokenResource_Delete_def Let_def AppendDiags_facts AddError_facts HTTPClient_Do_def)

theorem RunnerToken_Delete_status_witness:
  "\<not> HasError (Diagnostics (fst (RunnerTokenResource_Delete stub_lib test_client ([], runner_token_t1)
            (tracking runner_token_t1) (scripted [Inr \<lparr>StatusCode = 200, Body = []\<rparr>, not_found]))))
   \<and> \<not> HasError (Diagnostics (fst (RunnerTokenResource_Delete stub_lib test_client ([], runner_token_t1)
            (tracking runner_token_t1)
            (snd (RunnerTokenResource_Delete stub_lib test_client ([], runner_token_t1)
                    (tracking runner_token_t1)
                    (scripted [Inr \<lparr>StatusCode = 200, Body = []\<rparr>, not_found]))))))
   \<and> HasError (Diagnostics (fst (RunnerTokenResource_Delete stub_lib test_client ([], runner_token_t1)
            (tracking runner_token_t1) (scripted [Inr \<lparr>StatusCode = 204, Body = []\<rparr>]))))"
proof -
  let ?w = "scripted [Inr \<lparr>StatusCode = 200, Body = []\<rparr>, not_found]"
  let ?req = "\<lparr>Method = ''DELETE'', URL = BaseURL test_client @ ''/runner/token/t1'',
                Header = [(''Circle-Token'', ApiToken test_client)], ReqBody = None\<rparr>"
  have first: "snd (RunnerTokenResource_Delete stub_lib test_client ([], runner_token_t1)
                    (tracking runner_token_t1) ?w) = ?w\<lparr>sent := [?req]\<rparr>"
    by (simp add: RunnerTokenResource_Delete_def stub_lib_def scripted_def tracking_def
          runner_token_t1_def AppendDiags_def HTTPClient_Do_def Let_def)
  have clean: "\<not> HasError (Diagnostics (tracking runner_token_t1))" "\<not> HasError []"
    by (simp_all add: tracking_def)
  have url: "NewRequest_error stub_lib ''DELETE''
       (BaseURL test_client @ ''/runner/token/'' @ ValueString (RunnerTokenResourceModel_ID runner_token_t1))
       = None"
    by (simp add: stub_lib_def)
  have r1: "replies ?w (length (sent ?w)) = Inr \<lparr>StatusCode = 200, Body = []\<rparr>"
    by (simp add: scripted_def)
  have r2: "replies (?w\<lparr>sent := [?req]\<rparr>) (length (sent (?w\<lparr>sent := [?req]\<rparr>)))
              = Inr \<lparr>StatusCode = 404, Body = ''!Not found''\<rparr>"
    by (simp add: scripted_def not_found_def)
  have r3: "replies (scripted [Inr \<lparr>StatusCode = 204, Body = []\<rparr>])
              (length (sent (scripted [Inr \<lparr>StatusCode = 204, Body = []\<rparr>])))
              = Inr \<lparr>StatusCode = 204, Body = []\<rparr>"
    by (simp add: scripted_def)
  show ?thesis
    using RunnerToken_Delete_status [OF clean url r1, THEN conjunct1]
          RunnerToken_Delete_status [OF clean url r2, THEN conjunct1]
          RunnerToken_Delete_status [OF clean url r3, THEN conjunct1]
    by (simp add: first)
qed

end
